theory Spec2Isabelle
  imports Complex_Main "HOL-Library.Word"
begin

section \<open>The XMLHttpRequest override of the request interceptor\<close>

text \<open>
  A shallow embedding of \<^verbatim>\<open>src/interceptors/XMLHttpRequest/XMLHttpRequestOverride.ts\<close>
  and \<^verbatim>\<open>utils/createEvent.ts\<close>. An instance of the class is a record; every method is a
  function from the instance to the updated instance. What the instance does to its
  surroundings (a handler it calls, a notification it sends to the observer) is appended
  to the field \<open>trace\<close>, in the order in which the code does it.

  Handlers are user code. The model identifies a handler by its reference and records each
  call; it takes a handler to return without calling back into the instance.
\<close>

subsection \<open>Values of the host language\<close>

type_synonym byte = "8 word"

text \<open>
  The values that \<^verbatim>\<open>response\<close> (declared \<^verbatim>\<open>any\<close>) can hold: the results of
  \<^verbatim>\<open>JSON.parse\<close>, a \<^verbatim>\<open>Blob\<close> (its text and its type) and a byte buffer.
\<close>

datatype js_value =
    JNull
  | JUndefined
  | JBool bool
  | JNum rat
  | JStr string
  | JArr "js_value list"
  | JObj "(string \<times> js_value) list"
  | JBlob string string
  | JBytes "byte list"

text \<open>What \<^verbatim>\<open>if (v)\<close>, \<^verbatim>\<open>v && w\<close> and \<^verbatim>\<open>v || w\<close> test.\<close>

fun truthy :: "js_value \<Rightarrow> bool" where
  "truthy JNull = False"
| "truthy JUndefined = False"
| "truthy (JBool b) = b"
| "truthy (JNum n) = (n \<noteq> 0)"
| "truthy (JStr s) = (s \<noteq> [])"
| "truthy (JArr _) = True"
| "truthy (JObj _) = True"
| "truthy (JBlob _ _) = True"
| "truthy (JBytes _) = True"

text \<open>\<^verbatim>\<open>typeof v === 'string'\<close>.\<close>

fun is_string :: "js_value \<Rightarrow> bool" where
  "is_string (JStr _) = True"
| "is_string _ = False"

subsection \<open>Events\<close>

text \<open>
  The keys of \<^verbatim>\<open>InternalXMLHttpRequestEventTargetEventMap\<close>: the names an event of the
  instance can have.
\<close>

datatype event_name =
  Abort | Error | Load | Loadend | Loadstart | Progress | Timeout | Readystatechange

text \<open>
  A function value, compared by reference (\<^verbatim>\<open>!==\<close> in \<^verbatim>\<open>removeEventListener\<close>):
  a function of the caller, the method \<^verbatim>\<open>abort\<close> of the instance, or the arrow function
  that \<^verbatim>\<open>send\<close> attaches to the \<^verbatim>\<open>load\<close> event of the original request.
\<close>

datatype callback = Handler nat | AbortMethod | OriginalLoad

record progress_init =
  loaded :: "nat option"
  total :: "nat option"

text \<open>
  \<^verbatim>\<open>createEvent\<close>: a progress event (\<^verbatim>\<open>lengthComputable\<close>, \<^verbatim>\<open>loaded\<close>,
  \<^verbatim>\<open>total\<close>) for the names of \<^verbatim>\<open>progressEvents\<close>, a plain event otherwise. The
  native \<^verbatim>\<open>ProgressEvent\<close> and its polyfill carry the same three values.
\<close>

datatype event =
    ProgressEvent event_name bool nat nat
  | EventPolyfill event_name

definition progressEvents :: "event_name list" where
  "progressEvents = [Error, Progress, Loadstart, Loadend, Load, Timeout, Abort]"

definition createEvent :: "event_name \<Rightarrow> progress_init option \<Rightarrow> event" where
  "createEvent type init =
     (if type \<in> set progressEvents
      then ProgressEvent type True
             (case init of None \<Rightarrow> 0 | Some i \<Rightarrow> (case loaded i of None \<Rightarrow> 0 | Some n \<Rightarrow> n))
             (case init of None \<Rightarrow> 0 | Some i \<Rightarrow> (case total i of None \<Rightarrow> 0 | Some n \<Rightarrow> n))
      else EventPolyfill type)"

subsection \<open>The instance\<close>

datatype XMLHttpRequestResponseType =
  RT_empty | RT_arraybuffer | RT_blob | RT_document | RT_json | RT_text

text \<open>The request handed to the resolver and to the observer (\<^verbatim>\<open>IsomorphicRequest\<close>).\<close>

record 'h IsomorphicRequest =
  req_url :: string
  req_method :: string
  req_body :: string
  req_headers :: 'h

text \<open>The response handed to the observer.\<close>

record 'h IsomorphicResponse =
  res_status :: int
  res_statusText :: string
  res_headers :: 'h
  res_body :: "js_value option"

text \<open>
  What the instance does, in order: an assignment to \<^verbatim>\<open>readyState\<close> (old value, new
  value; the code logs it at line 145), a call of \<^verbatim>\<open>trigger\<close> (the name, the
  \<^verbatim>\<open>readyState\<close> at that moment, the event it creates and the functions it calls with
  it, in call order), and a call of \<^verbatim>\<open>observer.emit('response', ...)\<close>.
\<close>

datatype 'h effect =
    StateChange int int
  | Trigger event_name int event "callback list"
  | Emit "'h IsomorphicRequest" "'h IsomorphicResponse"

text \<open>
  The fields of the class. \<open>'h\<close> is the class \<^verbatim>\<open>Headers\<close> of the package
  \<^verbatim>\<open>headers-utils\<close>. A slot \<^verbatim>\<open>on...\<close> holds \<^verbatim>\<open>null\<close> (\<open>None\<close>) or a function;
  \<^verbatim>\<open>responseText\<close> is \<^verbatim>\<open>null\<close> after \<^verbatim>\<open>reset\<close>; \<^verbatim>\<open>async\<close>, \<^verbatim>\<open>user\<close> and
  \<^verbatim>\<open>password\<close> are \<^verbatim>\<open>undefined\<close> until \<^verbatim>\<open>open\<close> sets them.
\<close>

record 'h xhr =
  requestHeaders :: 'h
  responseHeaders :: 'h
  events :: "(event_name \<times> callback) list"
  "method" :: string
  url :: string
  withCredentials :: bool
  status :: int
  statusText :: string
  user :: "string option"
  password :: "string option"
  data :: string
  async :: "bool option"
  response :: js_value
  responseText :: "string option"
  responseType :: XMLHttpRequestResponseType
  responseXML :: js_value
  responseURL :: string
  readyState :: int
  timeout :: int
  onreadystatechange :: "callback option"
  onabort :: "callback option"
  onerror :: "callback option"
  onload :: "callback option"
  onloadend :: "callback option"
  onloadstart :: "callback option"
  onprogress :: "callback option"
  ontimeout :: "callback option"
  trace :: "'h effect list"

abbreviation UNSENT :: int where "UNSENT \<equiv> 0"
abbreviation OPENED :: int where "OPENED \<equiv> 1"
abbreviation HEADERS_RECEIVED :: int where "HEADERS_RECEIVED \<equiv> 2"
abbreviation LOADING :: int where "LOADING \<equiv> 3"
abbreviation DONE :: int where "DONE \<equiv> 4"

subsection \<open>What the class takes from outside\<close>

text \<open>
  The functions the class calls and that are not its own: \<^verbatim>\<open>JSON.parse\<close> of the host
  (\<open>None\<close> when it throws), \<^verbatim>\<open>bufferFrom\<close> of \<^verbatim>\<open>utils/bufferFrom\<close> (\<open>None\<close>
  when it throws: it cannot encode a text with a lone surrogate), the constructor
  \<^verbatim>\<open>URL\<close> with an optional base (\<open>None\<close> when it throws) and
  \<^verbatim>\<open>window.location.href\<close>, and the operations of \<^verbatim>\<open>headers-utils\<close>, of which
  \<^verbatim>\<open>objectToHeaders\<close> throws on a header name that is not valid (\<open>None\<close>). They
  are parameters of the model: every theorem holds for all of them.
\<close>

record 'h host =
  JSON_parse :: "string \<Rightarrow> js_value option"
  bufferFrom :: "string \<Rightarrow> byte list option"
  new_URL :: "string \<Rightarrow> string option \<Rightarrow> string option"
  location_href :: string
  new_Headers :: 'h
  headers_append :: "string \<Rightarrow> string \<Rightarrow> 'h \<Rightarrow> 'h"
  headers_get :: "'h \<Rightarrow> string \<Rightarrow> string option"
  headers_raw :: "'h \<Rightarrow> (string \<times> string) list"
  objectToHeaders :: "(string \<times> string) list \<Rightarrow> 'h option"
  stringToHeaders :: "string \<Rightarrow> 'h"
  headersToString :: "'h \<Rightarrow> string"

subsection \<open>Construction, state changes and dispatch\<close>

definition XMLHttpRequestOverride :: "'h host \<Rightarrow> 'h xhr" where
  "XMLHttpRequestOverride h =
     \<lparr> requestHeaders = new_Headers h, responseHeaders = new_Headers h, events = [],
       method = ''GET'', url = '''', withCredentials = False, status = 200,
       statusText = ''OK'', user = None, password = None, data = '''', async = None,
       response = JStr '''', responseText = Some '''', responseType = RT_text,
       responseXML = JNull, responseURL = '''', readyState = UNSENT, timeout = 0,
       onreadystatechange = None, onabort = None, onerror = None, onload = None,
       onloadend = None, onloadstart = None, onprogress = None, ontimeout = None,
       trace = [] \<rparr>"

text \<open>The slot \<^verbatim>\<open>this[`on${eventName}`]\<close>.\<close>

fun on :: "event_name \<Rightarrow> 'h xhr \<Rightarrow> callback option" where
  "on Abort x = onabort x"
| "on Error x = onerror x"
| "on Load x = onload x"
| "on Loadend x = onloadend x"
| "on Loadstart x = onloadstart x"
| "on Progress x = onprogress x"
| "on Timeout x = ontimeout x"
| "on Readystatechange x = onreadystatechange x"

text \<open>
  The functions one call of \<^verbatim>\<open>trigger\<close> calls: the slot when it is set, then the
  listeners registered under the name, in the order of \<^verbatim>\<open>_events\<close>.
\<close>

definition targets :: "event_name \<Rightarrow> 'h xhr \<Rightarrow> callback list" where
  "targets eventName x =
     (case on eventName x of None \<Rightarrow> [] | Some c \<Rightarrow> [c])
     @ map snd (filter (\<lambda>e. fst e = eventName) (events x))"

definition trigger :: "event_name \<Rightarrow> progress_init option \<Rightarrow> 'h xhr \<Rightarrow> 'h xhr" where
  "trigger eventName options x =
     x\<lparr> trace := trace x @
          [Trigger eventName (readyState x) (createEvent eventName options)
             (targets eventName x)] \<rparr>"

definition setReadyState :: "int \<Rightarrow> 'h xhr \<Rightarrow> 'h xhr" where
  "setReadyState nextState x =
     (if nextState = readyState x then x
      else
        let x1 = x\<lparr> readyState := nextState,
                    trace := trace x @ [StateChange (readyState x) nextState] \<rparr>
        in if nextState \<noteq> UNSENT then trigger Readystatechange None x1 else x1)"

definition reset :: "'h host \<Rightarrow> 'h xhr \<Rightarrow> 'h xhr" where
  "reset h x =
     (setReadyState UNSENT x)
       \<lparr> requestHeaders := new_Headers h, responseHeaders := new_Headers h,
         status := 200, statusText := ''OK'', data := '''', response := JNull,
         responseText := None, responseXML := JNull \<rparr>"

text \<open>
  \<^verbatim>\<open>open(method, url, async = true, user, password)\<close>: an argument left out is
  \<open>None\<close>; the default of \<^verbatim>\<open>async\<close> applies when it is left out.
\<close>

definition "open" ::
  "'h host \<Rightarrow> string \<Rightarrow> string option \<Rightarrow> bool option \<Rightarrow> string option \<Rightarrow> string option
     \<Rightarrow> 'h xhr \<Rightarrow> 'h xhr" where
  "open h m u a usr pwd x =
     (let x1 = setReadyState OPENED (reset h x)
      in case u of
           None \<Rightarrow> x1\<lparr> url := m, method := ''GET'' \<rparr>
         | Some u' \<Rightarrow>
             x1\<lparr> url := u', method := m,
                 async := Some (case a of None \<Rightarrow> True | Some b \<Rightarrow> b),
                 user := usr, password := pwd \<rparr>)"

definition abort :: "'h xhr \<Rightarrow> 'h xhr" where
  "abort x =
     (if readyState x > UNSENT \<and> readyState x < DONE
      then trigger Abort None (setReadyState UNSENT x)
      else x)"

definition setRequestHeader :: "'h host \<Rightarrow> string \<Rightarrow> string \<Rightarrow> 'h xhr \<Rightarrow> 'h xhr" where
  "setRequestHeader h name value x =
     x\<lparr> requestHeaders := headers_append h name value (requestHeaders x) \<rparr>"

definition getResponseHeader :: "'h host \<Rightarrow> string \<Rightarrow> 'h xhr \<Rightarrow> string option" where
  "getResponseHeader h name x =
     (if readyState x < HEADERS_RECEIVED then None
      else headers_get h (responseHeaders x) name)"

definition getAllResponseHeaders :: "'h host \<Rightarrow> 'h xhr \<Rightarrow> string" where
  "getAllResponseHeaders h x =
     (if readyState x < HEADERS_RECEIVED then ''''
      else headersToString h (responseHeaders x))"

definition addEventListener :: "event_name \<Rightarrow> callback \<Rightarrow> 'h xhr \<Rightarrow> 'h xhr" where
  "addEventListener name listener x = x\<lparr> events := events x @ [(name, listener)] \<rparr>"

definition removeEventListener :: "event_name \<Rightarrow> callback \<Rightarrow> 'h xhr \<Rightarrow> 'h xhr" where
  "removeEventListener name listener x =
     x\<lparr> events := filter (\<lambda>storedEvent. fst storedEvent \<noteq> name \<and> snd storedEvent \<noteq> listener)
                     (events x) \<rparr>"

subsection \<open>The body coercer\<close>

text \<open>
  Modelled from the spec: \<^verbatim>\<open>parseJson\<close> of \<^verbatim>\<open>utils/parseJson\<close>, imported at line 13;
  its file is not among the sources. Section 4.5: "parse as structured data; a parse
  failure must not raise: define and return a defined unparseable sentinel value rather
  than propagating the error". The sentinel is \<^verbatim>\<open>null\<close>: \<^verbatim>\<open>send\<close> reads a coerced
  response that is absent as the sign of an invalid body (comment at lines 299-300).
\<close>

definition unparseable :: js_value where
  "unparseable = JNull"

definition parseJson :: "'h host \<Rightarrow> string \<Rightarrow> js_value" where
  "parseJson h textBody =
     (case JSON_parse h textBody of Some json \<Rightarrow> json | None \<Rightarrow> unparseable)"

text \<open>An exception that a function of the class lets through to its caller.\<close>

datatype thrown = HeadersError | BufferError

text \<open>
  \<^verbatim>\<open>getResponseBody\<close>; the body is \<open>None\<close> when it is \<^verbatim>\<open>undefined\<close> or \<^verbatim>\<open>null\<close>.
  The call of \<^verbatim>\<open>bufferFrom\<close> at line 507 is not in a \<^verbatim>\<open>try\<close>: when it throws, so
  does \<^verbatim>\<open>getResponseBody\<close> (\<open>Inl\<close>).
\<close>

definition getResponseBody ::
  "'h host \<Rightarrow> string option \<Rightarrow> 'h xhr \<Rightarrow> thrown + js_value" where
  "getResponseBody h body x =
     (let textBody = (case body of None \<Rightarrow> '''' | Some b \<Rightarrow> b)
      in case responseType x of
           RT_json \<Rightarrow> Inr (parseJson h textBody)
         | RT_blob \<Rightarrow>
             Inr (JBlob textBody
               (case getResponseHeader h ''content-type'' x of
                  None \<Rightarrow> ''text/plain''
                | Some t \<Rightarrow> if t = [] then ''text/plain'' else t))
         | RT_arraybuffer \<Rightarrow>
             (case bufferFrom h textBody of
                None \<Rightarrow> Inl BufferError
              | Some arrayBuffer \<Rightarrow> Inr (JBytes arrayBuffer))
         | _ \<Rightarrow> Inr (JStr textBody))"

subsection \<open>The original request\<close>

text \<open>
  An instance of \<^verbatim>\<open>pureXMLHttpRequest\<close>, the client of the host. The model holds what
  the override sets on it: the arguments of \<^verbatim>\<open>open\<close>, the slots, the listeners and the
  request headers in the order of the calls, the timeout and the body sent.
\<close>

record real_xhr =
  real_open :: "(string \<times> string \<times> bool \<times> string option \<times> string option) option"
  real_events :: "(event_name \<times> callback) list"
  real_requestHeaders :: "(string \<times> string) list"
  real_timeout :: "int option"
  real_sent :: "string option"
  real_onreadystatechange :: "callback option"
  real_onabort :: "callback option"
  real_onerror :: "callback option"
  real_onload :: "callback option"
  real_onloadend :: "callback option"
  real_onloadstart :: "callback option"
  real_onprogress :: "callback option"
  real_ontimeout :: "callback option"

definition pureXMLHttpRequest :: real_xhr where
  "pureXMLHttpRequest =
     \<lparr> real_open = None, real_events = [], real_requestHeaders = [], real_timeout = None,
       real_sent = None, real_onreadystatechange = None, real_onabort = None,
       real_onerror = None, real_onload = None, real_onloadend = None,
       real_onloadstart = None, real_onprogress = None, real_ontimeout = None \<rparr>"

definition real_addEventListener :: "event_name \<Rightarrow> callback \<Rightarrow> real_xhr \<Rightarrow> real_xhr" where
  "real_addEventListener name listener request =
     request\<lparr> real_events := real_events request @ [(name, listener)] \<rparr>"

definition real_setRequestHeader :: "string \<Rightarrow> string \<Rightarrow> real_xhr \<Rightarrow> real_xhr" where
  "real_setRequestHeader name value request =
     request\<lparr> real_requestHeaders := real_requestHeaders request @ [(name, value)] \<rparr>"

text \<open>Line 521 assigns \<^verbatim>\<open>this.abort\<close>, the method, to \<^verbatim>\<open>request.onabort\<close>.\<close>

definition propagateCallbacks :: "'h xhr \<Rightarrow> real_xhr \<Rightarrow> real_xhr" where
  "propagateCallbacks x request =
     request\<lparr> real_onabort := Some AbortMethod,
              real_onerror := onerror x,
              real_ontimeout := ontimeout x,
              real_onload := onload x,
              real_onloadstart := onloadstart x,
              real_onloadend := onloadend x,
              real_onprogress := onprogress x,
              real_onreadystatechange := onreadystatechange x \<rparr>"

definition propagateListeners :: "'h xhr \<Rightarrow> real_xhr \<Rightarrow> real_xhr" where
  "propagateListeners x request =
     foldl (\<lambda>r (name, listener). real_addEventListener name listener r) request (events x)"

definition propagateHeaders :: "'h host \<Rightarrow> 'h \<Rightarrow> real_xhr \<Rightarrow> real_xhr" where
  "propagateHeaders h headers request =
     foldl (\<lambda>r (name, value). real_setRequestHeader name value r) request
       (headers_raw h headers)"

subsection \<open>Sending\<close>

text \<open>
  The response a resolver returns. A field left out is \<open>None\<close>; the headers are the
  entries of the object.
\<close>

record MockedResponse =
  mock_status :: "int option"
  mock_statusText :: "string option"
  mock_headers :: "(string \<times> string) list option"
  mock_body :: "string option"

text \<open>
  The pair that \<^verbatim>\<open>until\<close> resolves to: \<^verbatim>\<open>[error, null]\<close> with the value the
  resolver threw or rejected with, which can be any value of the language, or
  \<^verbatim>\<open>[null, data]\<close> with the value it returned.
\<close>

datatype outcome = Rejected js_value | Resolved "MockedResponse option"

datatype send_error = InvalidURL

text \<open>
  The synchronous part of \<^verbatim>\<open>send\<close>, up to the call of the resolver: it stores the
  body and builds the request. The second \<^verbatim>\<open>new URL\<close> is not in a \<^verbatim>\<open>try\<close>: when
  it throws, so does \<^verbatim>\<open>send\<close>.
\<close>

definition send ::
  "'h host \<Rightarrow> string option \<Rightarrow> 'h xhr \<Rightarrow> 'h xhr \<times> (send_error + 'h IsomorphicRequest)" where
  "send h d x =
     (let x1 = x\<lparr> data := (case d of None \<Rightarrow> '''' | Some s \<Rightarrow> s) \<rparr>;
          parsed = (case new_URL h (url x1) None of
                      Some u \<Rightarrow> Some u
                    | None \<Rightarrow> new_URL h (url x1) (Some (location_href h)))
      in case parsed of
           None \<Rightarrow> (x1, Inl InvalidURL)
         | Some u \<Rightarrow>
             (x1, Inr \<lparr> req_url = u, req_method = method x1, req_body = data x1,
                       req_headers = requestHeaders x1 \<rparr>))"

text \<open>Lines 256-267: the resolver threw.\<close>

definition then_exception :: "'h xhr \<Rightarrow> 'h xhr" where
  "then_exception x = abort (trigger Error None x)"

text \<open>
  Lines 310-326: the end of the mocked path. The headers for the observer are made by a
  second call of \<^verbatim>\<open>objectToHeaders\<close>, on the headers of the response or on \<^verbatim>\<open>{}\<close>;
  the body goes to the observer as the resolver gave it (\<open>None\<close> when it gave none).
\<close>

definition then_mocked_done ::
  "'h host \<Rightarrow> MockedResponse \<Rightarrow> 'h IsomorphicRequest \<Rightarrow> 'h xhr \<Rightarrow> 'h xhr \<times> thrown option"
  where
  "then_mocked_done h mockedResponse isoRequest x6 =
     (let x7 = trigger Loadend None (trigger Load None (setReadyState DONE x6))
      in case objectToHeaders h
                (case mock_headers mockedResponse of None \<Rightarrow> [] | Some obj \<Rightarrow> obj) of
           None \<Rightarrow> (x7, Some HeadersError)
         | Some headers \<Rightarrow>
             (x7\<lparr> trace := trace x7 @
                  [Emit isoRequest
                     \<lparr> res_status = status x7, res_statusText = statusText x7,
                       res_headers = headers,
                       res_body = map_option JStr (mock_body mockedResponse) \<rparr>] \<rparr>,
              None))"

text \<open>
  Lines 270-326: the resolver returned a response. Nothing in the function catches an
  exception: when \<^verbatim>\<open>objectToHeaders\<close> (line 279), \<^verbatim>\<open>getResponseBody\<close> (line 291) or
  \<^verbatim>\<open>bufferFrom\<close> (line 301) throws, the path stops there. The result is the instance
  as the path leaves it, and the exception that stopped it, if any.
\<close>

definition then_mocked ::
  "'h host \<Rightarrow> MockedResponse \<Rightarrow> 'h IsomorphicRequest \<Rightarrow> 'h xhr \<Rightarrow> 'h xhr \<times> thrown option"
  where
  "then_mocked h mockedResponse isoRequest x =
     (let x1 = trigger Loadstart None x;
          x2 = x1\<lparr> status := (case mock_status mockedResponse of
                                None \<Rightarrow> 200 | Some s \<Rightarrow> if s = 0 then 200 else s),
                    statusText := (case mock_statusText mockedResponse of
                                None \<Rightarrow> ''OK'' | Some t \<Rightarrow> if t = [] then ''OK'' else t) \<rparr>
      in case (case mock_headers mockedResponse of
                 Some obj \<Rightarrow> objectToHeaders h obj
               | None \<Rightarrow> Some (new_Headers h)) of
           None \<Rightarrow> (x2, Some HeadersError)
         | Some headers \<Rightarrow>
             (let x3 = setReadyState HEADERS_RECEIVED (x2\<lparr> responseHeaders := headers \<rparr>)
              in case getResponseBody h (mock_body mockedResponse) x3 of
                   Inl e \<Rightarrow> (x3, Some e)
                 | Inr coerced \<Rightarrow>
                     (let x5 = x3\<lparr> response := coerced,
                                    responseText := Some (case mock_body mockedResponse of
                                      None \<Rightarrow> '''' | Some b \<Rightarrow> b) \<rparr>
                      in case mock_body mockedResponse of
                           None \<Rightarrow> then_mocked_done h mockedResponse isoRequest x5
                         | Some b \<Rightarrow>
                             if b \<noteq> [] \<and> truthy (response x5)
                             then
                               (let x6 = setReadyState LOADING x5
                                in case bufferFrom h b of
                                     None \<Rightarrow> (x6, Some BufferError)
                                   | Some bodyBuffer \<Rightarrow>
                                       then_mocked_done h mockedResponse isoRequest
                                         (trigger Progress
                                            (Some \<lparr> loaded = Some (length bodyBuffer),
                                                    total = Some (length bodyBuffer) \<rparr>)
                                            x6))
                             else then_mocked_done h mockedResponse isoRequest x5)))"

text \<open>
  Lines 331-398: the resolver returned nothing. The function gives the original request
  as \<^verbatim>\<open>send\<close> leaves it; the instance itself does not change before the original
  request loads.
\<close>

definition then_original :: "'h host \<Rightarrow> 'h xhr \<Rightarrow> real_xhr" where
  "then_original h x =
     (let r1 = pureXMLHttpRequest
                 \<lparr> real_open := Some (method x, url x,
                     (case async x of None \<Rightarrow> True | Some a \<Rightarrow> a), user x, password x) \<rparr>;
          r2 = real_addEventListener Load OriginalLoad r1;
          r3 = propagateCallbacks x r2;
          r4 = propagateListeners x r3;
          r5 = propagateHeaders h (requestHeaders x) r4;
          r6 = (if async x = Some True then r5\<lparr> real_timeout := Some (timeout x) \<rparr> else r5)
      in r6\<lparr> real_sent := Some (data x) \<rparr>)"

text \<open>What the original request holds when its \<^verbatim>\<open>load\<close> event fires.\<close>

record real_response =
  orig_status :: int
  orig_statusText :: string
  orig_responseURL :: string
  orig_responseType :: XMLHttpRequestResponseType
  orig_response :: js_value
  orig_responseText :: string
  orig_responseXML :: js_value
  orig_allResponseHeaders :: string

text \<open>Lines 344-385: the listener \<open>OriginalLoad\<close>.\<close>

definition original_load ::
  "'h host \<Rightarrow> 'h IsomorphicRequest \<Rightarrow> real_response \<Rightarrow> 'h xhr \<Rightarrow> 'h xhr" where
  "original_load h isoRequest originalRequest x =
     (let x1 = x\<lparr> status := orig_status originalRequest,
                    statusText := orig_statusText originalRequest,
                    responseURL := orig_responseURL originalRequest,
                    responseType := orig_responseType originalRequest,
                    response := orig_response originalRequest,
                    responseText := Some (orig_responseText originalRequest),
                    responseXML := orig_responseXML originalRequest \<rparr>;
          x2 = setReadyState DONE x1;
          x3 = x2\<lparr> responseHeaders :=
                      stringToHeaders h (orig_allResponseHeaders originalRequest) \<rparr>
      in x3\<lparr> trace := trace x3 @
                [Emit isoRequest
                   \<lparr> res_status = orig_status originalRequest,
                     res_statusText = orig_statusText originalRequest,
                     res_headers = responseHeaders x3,
                     res_body = Some (orig_response originalRequest) \<rparr>] \<rparr>)"

text \<open>
  Lines 252-401: the function given to \<^verbatim>\<open>then\<close>. It runs when the resolver has
  settled, on the instance as it is at that moment. Line 256 tests the value the resolver
  threw for truthiness; when it is falsy, \<^verbatim>\<open>mockedResponse\<close> is \<^verbatim>\<open>null\<close> and the
  request is passed through. The result is the instance, the original request when one
  was made, and the exception the function ends with, if any: nothing handles it.
\<close>

definition send_then ::
  "'h host \<Rightarrow> outcome \<Rightarrow> 'h IsomorphicRequest \<Rightarrow> 'h xhr
     \<Rightarrow> 'h xhr \<times> real_xhr option \<times> thrown option" where
  "send_then h settled isoRequest x =
     (case settled of
        Rejected middlewareException \<Rightarrow>
          if truthy middlewareException then (then_exception x, None, None)
          else (x, Some (then_original h x), None)
      | Resolved (Some mockedResponse) \<Rightarrow>
          (case then_mocked h mockedResponse isoRequest x of
             (x', e) \<Rightarrow> (x', None, e))
      | Resolved None \<Rightarrow> (x, Some (then_original h x), None))"

subsection \<open>Reading a trace\<close>

text \<open>The names of the events fired, in order.\<close>

definition fired :: "'h effect list \<Rightarrow> event_name list" where
  "fired tr = concat (map (\<lambda>e. case e of Trigger name _ _ _ \<Rightarrow> [name] | _ \<Rightarrow> []) tr)"

text \<open>The values assigned to \<^verbatim>\<open>readyState\<close>, in order.\<close>

definition entered :: "'h effect list \<Rightarrow> int list" where
  "entered tr = concat (map (\<lambda>e. case e of StateChange _ s \<Rightarrow> [s] | _ \<Rightarrow> []) tr)"

text \<open>
  The values of \<^verbatim>\<open>readyState\<close> at which a \<^verbatim>\<open>readystatechange\<close> event was fired, in
  order.
\<close>

definition readystatechanges :: "'h effect list \<Rightarrow> int list" where
  "readystatechanges tr =
     concat (map (\<lambda>e. case e of
                          Trigger name s _ _ \<Rightarrow> if name = Readystatechange then [s] else []
                        | _ \<Rightarrow> []) tr)"

text \<open>The \<^verbatim>\<open>progress\<close> events fired, as (\<^verbatim>\<open>loaded\<close>, \<^verbatim>\<open>total\<close>), in order.\<close>

definition progressed :: "'h effect list \<Rightarrow> (nat \<times> nat) list" where
  "progressed tr =
     concat (map (\<lambda>e. case e of
                          Trigger _ _ (ProgressEvent Progress _ l t) _ \<Rightarrow> [(l, t)]
                        | _ \<Rightarrow> []) tr)"

subsection \<open>A host for the worked examples\<close>

text \<open>
  The theorems hold for every host. The examples run on this one. Its \<^verbatim>\<open>Headers\<close> are
  the list of the entries appended, looked up without regard to case. Its
  \<^verbatim>\<open>JSON.parse\<close> is the builtin on the texts the examples give it: three JSON texts,
  and a failure on the texts \<^verbatim>\<open>hello\<close>, \<^verbatim>\<open>{not json\<close> and the empty text. Its
  \<^verbatim>\<open>URL\<close> accepts a text that starts with \<^verbatim>\<open>http://\<close> and resolves any other
  against the base.
\<close>

definition ascii_lower :: "char \<Rightarrow> char" where
  "ascii_lower c =
     (let n = (of_char c :: nat) in if 65 \<le> n \<and> n \<le> 90 then char_of (n + 32) else c)"

definition example_JSON_parse :: "string \<Rightarrow> js_value option" where
  \<open>example_JSON_parse s =
     (if s = ''false'' then Some (JBool False)
      else if s = ''"abc"'' then Some (JStr ''abc'')
      else if s = ''{"ok":true}'' then Some (JObj [(''ok'', JBool True)])
      else None)\<close>

definition example_new_URL :: "string \<Rightarrow> string option \<Rightarrow> string option" where
  "example_new_URL u base =
     (if take 7 u = ''http://'' then Some u
      else case base of None \<Rightarrow> None | Some b \<Rightarrow> Some (b @ u))"

fun example_lines :: "string \<Rightarrow> string \<Rightarrow> string list" where
  "example_lines acc [] = (if acc = [] then [] else [rev acc])"
| "example_lines acc (c # cs) =
     (if c = CHR 0x0A then (if acc = [] then [] else [rev acc]) @ example_lines [] cs
      else if c = CHR 0x0D then example_lines acc cs
      else example_lines (c # acc) cs)"

definition example_header :: "string \<Rightarrow> string \<times> string" where
  "example_header l =
     (takeWhile (\<lambda>c. c \<noteq> CHR '':'') l,
      dropWhile (\<lambda>c. c = CHR '' '') (drop 1 (dropWhile (\<lambda>c. c \<noteq> CHR '':'') l)))"

text \<open>
  A text is held as its bytes in UTF-8. A lone surrogate, which \<^verbatim>\<open>bufferFrom\<close> cannot
  encode, shows as the byte \<^verbatim>\<open>ED\<close> followed by a byte from \<^verbatim>\<open>A0\<close> on; any other
  text is encoded as its bytes.
\<close>

fun lone_surrogate :: "string \<Rightarrow> bool" where
  "lone_surrogate (a # b # cs) =
     (a = CHR 0xED \<and> (160 :: nat) \<le> of_char b \<or> lone_surrogate (b # cs))"
| "lone_surrogate _ = False"

definition example_bufferFrom :: "string \<Rightarrow> byte list option" where
  "example_bufferFrom s =
     (if lone_surrogate s then None else Some (map (\<lambda>c. word_of_nat (of_char c)) s))"

text \<open>A header name that is empty or has a space in it is not valid.\<close>

definition example_objectToHeaders ::
  "(string \<times> string) list \<Rightarrow> (string \<times> string) list option" where
  "example_objectToHeaders obj =
     (if list_ex (\<lambda>(k, v). k = [] \<or> CHR '' '' \<in> set k) obj then None else Some obj)"

definition example_host :: "(string \<times> string) list host" where
  "example_host =
     \<lparr> JSON_parse = example_JSON_parse,
       bufferFrom = example_bufferFrom,
       new_URL = example_new_URL,
       location_href = ''http://localhost'',
       new_Headers = [],
       headers_append = (\<lambda>name value hs. hs @ [(name, value)]),
       headers_get = (\<lambda>hs name.
          map_of (map (\<lambda>(k, v). (map ascii_lower k, v)) hs) (map ascii_lower name)),
       headers_raw = (\<lambda>hs. hs),
       objectToHeaders = example_objectToHeaders,
       stringToHeaders = (\<lambda>s. map example_header (example_lines [] s)),
       headersToString = (\<lambda>hs. concat (map (\<lambda>(k, v). k @ '': '' @ v @ [CHR 0x0D, CHR 0x0A]) hs)) \<rparr>"

subsection \<open>The mocked path in terms of what the resolver returned\<close>

text \<open>
  The test at line 296, \<^verbatim>\<open>mockedResponse.body && this.response\<close>, when the path
  reaches it: the body is a text that is not empty, and the coerced response is truthy,
  as it is under every \<^verbatim>\<open>responseType\<close> but \<^verbatim>\<open>json\<close>, and under \<^verbatim>\<open>json\<close> when
  the body parses to a truthy value.
\<close>

definition mocked_loading :: "'h host \<Rightarrow> MockedResponse \<Rightarrow> 'h xhr \<Rightarrow> bool" where
  "mocked_loading h m x =
     (case mock_body m of
        None \<Rightarrow> False
      | Some b \<Rightarrow>
          b \<noteq> [] \<and>
          (responseType x \<noteq> RT_json \<or>
           (case JSON_parse h b of None \<Rightarrow> False | Some v \<Rightarrow> truthy v)))"

text \<open>
  No call on the mocked path throws: \<^verbatim>\<open>objectToHeaders\<close> accepts the headers of the
  response (line 279) and what line 324 gives it, and \<^verbatim>\<open>bufferFrom\<close> encodes the body
  where the path calls it (line 507 under \<^verbatim>\<open>arraybuffer\<close>, line 301 before the
  \<^verbatim>\<open>progress\<close> event).
\<close>

definition mocked_completes :: "'h host \<Rightarrow> MockedResponse \<Rightarrow> 'h xhr \<Rightarrow> bool" where
  "mocked_completes h m x =
     (objectToHeaders h (case mock_headers m of None \<Rightarrow> [] | Some obj \<Rightarrow> obj) \<noteq> None
      \<and> (if responseType x = RT_arraybuffer \<or> mocked_loading h m x
         then bufferFrom h (case mock_body m of None \<Rightarrow> [] | Some b \<Rightarrow> b) \<noteq> None
         else True))"

text \<open>The headers the instance holds on the mocked path.\<close>

definition mocked_headers :: "'h host \<Rightarrow> MockedResponse \<Rightarrow> 'h" where
  "mocked_headers h m =
     (case mock_headers m of
        None \<Rightarrow> new_Headers h
      | Some obj \<Rightarrow>
          (case objectToHeaders h obj of None \<Rightarrow> new_Headers h | Some headers \<Rightarrow> headers))"

subsection \<open>The instance and the responses of the worked examples\<close>

text \<open>
  A new instance after \<^verbatim>\<open>open('GET', '/empty')\<close>, the same with
  \<^verbatim>\<open>responseType = 'json'\<close>, and the request \<^verbatim>\<open>send()\<close> builds from them.
\<close>

definition example_opened :: "(string \<times> string) list xhr" where
  "example_opened =
     open example_host ''GET'' (Some ''/empty'') None None None
       (XMLHttpRequestOverride example_host)"

definition example_opened_json :: "(string \<times> string) list xhr" where
  "example_opened_json = example_opened\<lparr> responseType := RT_json \<rparr>"

definition example_request :: "(string \<times> string) list IsomorphicRequest" where
  "example_request =
     \<lparr> req_url = ''http://localhost/empty'', req_method = ''GET'', req_body = '''',
       req_headers = [] \<rparr>"

text \<open>The response \<^verbatim>\<open>{ status: 200, body }\<close>, and the response \<^verbatim>\<open>{}\<close>.\<close>

definition example_mock :: "string \<Rightarrow> MockedResponse" where
  "example_mock b =
     \<lparr> mock_status = Some 200, mock_statusText = None, mock_headers = None,
       mock_body = Some b \<rparr>"

definition example_mock_empty :: MockedResponse where
  "example_mock_empty =
     \<lparr> mock_status = None, mock_statusText = None, mock_headers = None, mock_body = None \<rparr>"

text \<open>
  The mocked path reaches lines 291 and 292: \<^verbatim>\<open>objectToHeaders\<close> accepts the headers
  of the response at line 279, and \<^verbatim>\<open>getResponseBody\<close> returns.
\<close>

definition mocked_coerces :: "'h host \<Rightarrow> MockedResponse \<Rightarrow> 'h xhr \<Rightarrow> bool" where
  "mocked_coerces h m x =
     ((case mock_headers m of None \<Rightarrow> True | Some obj \<Rightarrow> objectToHeaders h obj \<noteq> None)
      \<and> (if responseType x = RT_arraybuffer
         then bufferFrom h (case mock_body m of None \<Rightarrow> [] | Some b \<Rightarrow> b) \<noteq> None
         else True))"

section \<open>Properties\<close>

subsection \<open>Traces\<close>

lemma fired_append [simp]: "fired (tr @ tr') = fired tr @ fired tr'"
  by (simp add: fired_def)

lemma entered_append [simp]: "entered (tr @ tr') = entered tr @ entered tr'"
  by (simp add: entered_def)

lemma readystatechanges_append [simp]:
  "readystatechanges (tr @ tr') = readystatechanges tr @ readystatechanges tr'"
  by (simp add: readystatechanges_def)

lemma progressed_append [simp]: "progressed (tr @ tr') = progressed tr @ progressed tr'"
  by (simp add: progressed_def)

lemma fired_simps:
  "fired [] = []"
  "fired (StateChange a b # tr) = fired tr"
  "fired (Trigger name st ev cs # tr) = name # fired tr"
  "fired (Emit rq rs # tr) = fired tr"
  by (simp_all add: fired_def)

lemma entered_simps:
  "entered [] = []"
  "entered (StateChange a b # tr) = b # entered tr"
  "entered (Trigger name st ev cs # tr) = entered tr"
  "entered (Emit rq rs # tr) = entered tr"
  by (simp_all add: entered_def)

subsection \<open>State changes\<close>

lemma setReadyState_same: "setReadyState (readyState x) x = x"
  by (simp add: setReadyState_def)

lemma setReadyState_UNSENT:
  "readyState x \<noteq> UNSENT \<Longrightarrow>
   setReadyState UNSENT x =
     x\<lparr> readyState := UNSENT, trace := trace x @ [StateChange (readyState x) UNSENT] \<rparr>"
  by (simp add: setReadyState_def)

lemma setReadyState_change:
  "nextState \<noteq> readyState x \<Longrightarrow> nextState \<noteq> UNSENT \<Longrightarrow>
   setReadyState nextState x =
     x\<lparr> readyState := nextState,
        trace := trace x @
          [StateChange (readyState x) nextState,
           Trigger Readystatechange nextState (EventPolyfill Readystatechange)
             (targets Readystatechange x)] \<rparr>"
  by (simp add: setReadyState_def trigger_def createEvent_def progressEvents_def targets_def)

lemma readyState_setReadyState: "readyState (setReadyState n x) = n"
  by (simp add: setReadyState_def trigger_def Let_def)

lemma readystatechanges_setReadyState:
  "readystatechanges (trace (setReadyState n x)) =
     readystatechanges (trace x) @ (if n = readyState x \<or> n = UNSENT then [] else [n])"
  by (simp add: setReadyState_def trigger_def Let_def readystatechanges_def)

lemma remdups_adj_Cons_tl: "remdups_adj (n # ns) = n # tl (remdups_adj (n # ns))"
  by (metis hd_remdups_adj list.sel(1) list.exhaust_sel remdups_adj_Nil_iff list.distinct(1))

lemma readystatechanges_calls:
  "readystatechanges (trace (foldl (\<lambda>y n. setReadyState n y) x ns)) =
     readystatechanges (trace x) @
       filter (\<lambda>n. n \<noteq> UNSENT) (tl (remdups_adj (readyState x # ns)))"
proof (induction ns arbitrary: x)
  case Nil
  show ?case by simp
next
  case (Cons n ns)
  define rest where "rest = tl (remdups_adj (n # ns))"
  have rest: "remdups_adj (n # ns) = n # rest"
    unfolding rest_def by (rule remdups_adj_Cons_tl)
  have step:
    "readystatechanges (trace (foldl (\<lambda>y n. setReadyState n y) (setReadyState n x) ns)) =
       readystatechanges (trace (setReadyState n x)) @ filter (\<lambda>n. n \<noteq> UNSENT) rest"
    by (simp only: Cons.IH [of "setReadyState n x"] readyState_setReadyState rest list.sel)
  show ?case
  proof (cases "n = readyState x")
    case True
    have rd: "remdups_adj (readyState x # n # ns) = n # rest"
      using rest by (simp add: True)
    have st: "setReadyState n x = x"
      by (simp only: True setReadyState_same)
    show ?thesis
      using step by (simp only: foldl_Cons st rd list.sel)
  next
    case False
    then have rd: "remdups_adj (readyState x # n # ns) = readyState x # n # rest"
      using rest by auto
    have st: "readystatechanges (trace (setReadyState n x)) =
        readystatechanges (trace x) @ (if n = UNSENT then [] else [n])"
      using False by (simp add: readystatechanges_setReadyState)
    have "readystatechanges (trace (foldl (\<lambda>y n. setReadyState n y) x (n # ns))) =
        (readystatechanges (trace x) @ (if n = UNSENT then [] else [n])) @
          filter (\<lambda>n. n \<noteq> UNSENT) rest"
      by (simp only: foldl_Cons step st)
    also have "\<dots> = readystatechanges (trace x) @ filter (\<lambda>n. n \<noteq> UNSENT) (n # rest)"
      by simp
    also have "\<dots> = readystatechanges (trace x) @
        filter (\<lambda>n. n \<noteq> UNSENT) (tl (remdups_adj (readyState x # n # ns)))"
      by (simp only: rd list.sel)
    finally show ?thesis .
  qed
qed

text \<open>
  C6. Over any sequence of calls of \<^verbatim>\<open>setReadyState\<close>, the \<^verbatim>\<open>readystatechange\<close>
  events fired are, in order, one for each value the state changes to other than UNSENT:
  the sequence of the states requested, with every repetition of the state just held
  removed. The event is fired after the assignment: it is recorded with the new state.
  A call with the current state returns the instance as it is. A change to UNSENT assigns
  the state and fires nothing.
\<close>

theorem setReadyState_fires_once_per_change:
  "readystatechanges (trace (foldl (\<lambda>y n. setReadyState n y) x ns)) =
     readystatechanges (trace x) @
       filter (\<lambda>n. n \<noteq> UNSENT) (tl (remdups_adj (readyState x # ns)))
   \<and> setReadyState (readyState x) x = x
   \<and> (n \<noteq> readyState x \<and> n \<noteq> UNSENT \<longrightarrow>
        setReadyState n x =
          x\<lparr> readyState := n,
             trace := trace x @
               [StateChange (readyState x) n,
                Trigger Readystatechange n (EventPolyfill Readystatechange)
                  (targets Readystatechange x)] \<rparr>)
   \<and> (readyState x \<noteq> UNSENT \<longrightarrow>
        setReadyState UNSENT x =
          x\<lparr> readyState := UNSENT, trace := trace x @ [StateChange (readyState x) UNSENT] \<rparr>)"
proof (intro conjI impI)
  show "readystatechanges (trace (foldl (\<lambda>y n. setReadyState n y) x ns)) =
     readystatechanges (trace x) @
       filter (\<lambda>n. n \<noteq> UNSENT) (tl (remdups_adj (readyState x # ns)))"
    by (rule readystatechanges_calls)
  show "setReadyState (readyState x) x = x"
    by (rule setReadyState_same)
next
  assume "n \<noteq> readyState x \<and> n \<noteq> UNSENT"
  then show "setReadyState n x =
          x\<lparr> readyState := n,
             trace := trace x @
               [StateChange (readyState x) n,
                Trigger Readystatechange n (EventPolyfill Readystatechange)
                  (targets Readystatechange x)] \<rparr>"
    by (simp add: setReadyState_change)
next
  assume "readyState x \<noteq> UNSENT"
  then show "setReadyState UNSENT x =
          x\<lparr> readyState := UNSENT, trace := trace x @ [StateChange (readyState x) UNSENT] \<rparr>"
    by (rule setReadyState_UNSENT)
qed

theorem setReadyState_fires_once_per_change_witness:
  "readystatechanges
     (trace (foldl (\<lambda>y n. setReadyState n y) (XMLHttpRequestOverride example_host)
        [OPENED, OPENED, HEADERS_RECEIVED, UNSENT, OPENED, DONE, DONE])) =
     [OPENED, HEADERS_RECEIVED, OPENED, DONE]
   \<and> OPENED \<noteq> readyState (XMLHttpRequestOverride example_host)
   \<and> trace (setReadyState OPENED (XMLHttpRequestOverride example_host)) =
       [StateChange UNSENT OPENED,
        Trigger Readystatechange OPENED (EventPolyfill Readystatechange) []]
   \<and> readyState (setReadyState OPENED (XMLHttpRequestOverride example_host)) \<noteq> UNSENT
   \<and> trace (setReadyState UNSENT (setReadyState OPENED (XMLHttpRequestOverride example_host))) =
       [StateChange UNSENT OPENED,
        Trigger Readystatechange OPENED (EventPolyfill Readystatechange) [],
        StateChange OPENED UNSENT]"
proof -
  let ?x = "XMLHttpRequestOverride example_host :: (string \<times> string) list xhr"
  let ?y = "setReadyState OPENED ?x"
  have x0: "readyState ?x = UNSENT" "trace ?x = []" "targets Readystatechange ?x = []"
    by (simp_all add: XMLHttpRequestOverride_def targets_def)
  note at_x = setReadyState_fires_once_per_change
      [of ?x "[OPENED, OPENED, HEADERS_RECEIVED, UNSENT, OPENED, DONE, DONE]" OPENED]
  note at_y = setReadyState_fires_once_per_change [of ?y "[]" OPENED]
  have calls: "readystatechanges
     (trace (foldl (\<lambda>y n. setReadyState n y) ?x
        [OPENED, OPENED, HEADERS_RECEIVED, UNSENT, OPENED, DONE, DONE])) =
     [OPENED, HEADERS_RECEIVED, OPENED, DONE]"
  proof -
    have "readystatechanges
       (trace (foldl (\<lambda>y n. setReadyState n y) ?x
          [OPENED, OPENED, HEADERS_RECEIVED, UNSENT, OPENED, DONE, DONE])) =
       readystatechanges (trace ?x) @
         filter (\<lambda>n. n \<noteq> UNSENT)
           (tl (remdups_adj
              (readyState ?x # [OPENED, OPENED, HEADERS_RECEIVED, UNSENT, OPENED, DONE, DONE])))"
      using at_x by (rule conjunct1)
    also have "\<dots> = [OPENED, HEADERS_RECEIVED, OPENED, DONE]"
      unfolding x0 by (simp add: readystatechanges_def)
    finally show ?thesis .
  qed
  have hyp1: "OPENED \<noteq> readyState ?x \<and> OPENED \<noteq> UNSENT"
    by (simp add: x0)
  have y: "?y = ?x\<lparr> readyState := OPENED,
             trace := trace ?x @
               [StateChange (readyState ?x) OPENED,
                Trigger Readystatechange OPENED (EventPolyfill Readystatechange)
                  (targets Readystatechange ?x)] \<rparr>"
    using at_x hyp1 by blast
  have ty: "trace ?y = [StateChange UNSENT OPENED,
        Trigger Readystatechange OPENED (EventPolyfill Readystatechange) []]"
    by (simp add: y x0)
  have ry: "readyState ?y = OPENED"
    by (simp add: y)
  have hyp2: "readyState ?y \<noteq> UNSENT"
    by (simp add: ry)
  have z: "setReadyState UNSENT ?y =
      ?y\<lparr> readyState := UNSENT, trace := trace ?y @ [StateChange (readyState ?y) UNSENT] \<rparr>"
    using at_y hyp2 by blast
  have tz: "trace (setReadyState UNSENT ?y) =
      [StateChange UNSENT OPENED,
        Trigger Readystatechange OPENED (EventPolyfill Readystatechange) [],
        StateChange OPENED UNSENT]"
    by (simp add: z ty ry)
  show ?thesis
    using calls hyp1 ty hyp2 tz by blast
qed

text \<open>
  C7. \<^verbatim>\<open>abort\<close> on an instance whose state lies strictly between UNSENT and DONE sets
  the state to UNSENT and fires \<^verbatim>\<open>abort\<close>, and does nothing else; on any other
  instance, among them one that is UNSENT or DONE, it returns the instance as it is.
\<close>

theorem abort_iff_in_flight:
  "(UNSENT < readyState x \<and> readyState x < DONE \<longrightarrow>
      abort x =
        x\<lparr> readyState := UNSENT,
           trace := trace x @
             [StateChange (readyState x) UNSENT,
              Trigger Abort UNSENT (ProgressEvent Abort True 0 0) (targets Abort x)] \<rparr>)
   \<and> (\<not> (UNSENT < readyState x \<and> readyState x < DONE) \<longrightarrow> abort x = x)"
  by (simp add: abort_def setReadyState_def trigger_def createEvent_def progressEvents_def
      targets_def)

theorem abort_iff_in_flight_witness:
  "UNSENT < readyState (setReadyState LOADING (XMLHttpRequestOverride example_host))
   \<and> readyState (setReadyState LOADING (XMLHttpRequestOverride example_host)) < DONE
   \<and> readyState (abort (setReadyState LOADING (XMLHttpRequestOverride example_host))) = UNSENT
   \<and> fired (trace (abort (setReadyState LOADING (XMLHttpRequestOverride example_host)))) =
       [Readystatechange, Abort]
   \<and> \<not> (UNSENT < readyState (XMLHttpRequestOverride example_host)
         \<and> readyState (XMLHttpRequestOverride example_host) < DONE)
   \<and> abort (XMLHttpRequestOverride example_host) = XMLHttpRequestOverride example_host
   \<and> \<not> (UNSENT < readyState (setReadyState DONE (XMLHttpRequestOverride example_host))
         \<and> readyState (setReadyState DONE (XMLHttpRequestOverride example_host)) < DONE)
   \<and> abort (setReadyState DONE (XMLHttpRequestOverride example_host)) =
       setReadyState DONE (XMLHttpRequestOverride example_host)"
  using abort_iff_in_flight [of "setReadyState LOADING (XMLHttpRequestOverride example_host)"]
        abort_iff_in_flight [of "XMLHttpRequestOverride example_host"]
        abort_iff_in_flight [of "setReadyState DONE (XMLHttpRequestOverride example_host)"]
  by (simp add: XMLHttpRequestOverride_def readyState_setReadyState setReadyState_change
      fired_def)

lemma removeEventListener_keeps:
  "set (events (removeEventListener name listener x)) =
     {e \<in> set (events x). fst e \<noteq> name \<and> snd e \<noteq> listener}"
  by (simp add: removeEventListener_def)

text \<open>
  C1. One listener is registered for \<^verbatim>\<open>load\<close>. Removing another listener under the
  same name, or the same listener under another name, removes it: the filter keeps an
  entry only when its name and its listener both differ from the arguments.
\<close>

theorem removeEventListener_removes_on_one_match:
  "events (addEventListener Load (Handler 1) (XMLHttpRequestOverride example_host)) =
     [(Load, Handler 1)]
   \<and> events (removeEventListener Load (Handler 2)
        (addEventListener Load (Handler 1) (XMLHttpRequestOverride example_host))) = []
   \<and> events (removeEventListener Error (Handler 1)
        (addEventListener Load (Handler 1) (XMLHttpRequestOverride example_host))) = []"
  by (simp add: addEventListener_def removeEventListener_def XMLHttpRequestOverride_def)

subsection \<open>The mocked response\<close>

lemma trigger_eq:
  "trigger name init x =
     x\<lparr> trace := trace x @ [Trigger name (readyState x) (createEvent name init) (targets name x)] \<rparr>"
  by (simp add: trigger_def)

lemma setReadyState_eq:
  "setReadyState n x =
     x\<lparr> readyState := n,
        trace := trace x @
          (if n = readyState x then []
           else StateChange (readyState x) n #
             (if n = UNSENT then []
              else [Trigger Readystatechange n (EventPolyfill Readystatechange)
                      (targets Readystatechange x)])) \<rparr>"
  by (simp add: setReadyState_def trigger_def createEvent_def progressEvents_def targets_def)

lemma createEvent_simps:
  "createEvent Loadstart None = ProgressEvent Loadstart True 0 0"
  "createEvent Load None = ProgressEvent Load True 0 0"
  "createEvent Loadend None = ProgressEvent Loadend True 0 0"
  "createEvent Error None = ProgressEvent Error True 0 0"
  "createEvent Abort None = ProgressEvent Abort True 0 0"
  "createEvent Progress (Some \<lparr> loaded = Some k, total = Some k \<rparr>) = ProgressEvent Progress True k k"
  by (simp_all add: createEvent_def progressEvents_def)

lemma getResponseBody_cases:
  "getResponseBody h body y =
     (case responseType y of
        RT_json \<Rightarrow> Inr (parseJson h (case body of None \<Rightarrow> [] | Some b \<Rightarrow> b))
      | RT_blob \<Rightarrow>
          Inr (JBlob (case body of None \<Rightarrow> [] | Some b \<Rightarrow> b)
            (case getResponseHeader h ''content-type'' y of
               None \<Rightarrow> ''text/plain''
             | Some t \<Rightarrow> if t = [] then ''text/plain'' else t))
      | RT_arraybuffer \<Rightarrow>
          (case bufferFrom h (case body of None \<Rightarrow> [] | Some b \<Rightarrow> b) of
             None \<Rightarrow> Inl BufferError
           | Some arrayBuffer \<Rightarrow> Inr (JBytes arrayBuffer))
      | _ \<Rightarrow> Inr (JStr (case body of None \<Rightarrow> [] | Some b \<Rightarrow> b)))"
  by (cases "responseType y") (simp_all add: getResponseBody_def Let_def)

lemma truthy_getResponseBody:
  "b \<noteq> [] \<Longrightarrow> getResponseBody h (Some b) y = Inr v \<Longrightarrow>
   truthy v =
     (responseType y \<noteq> RT_json \<or>
      (case JSON_parse h b of None \<Rightarrow> False | Some v \<Rightarrow> truthy v))"
  by (cases "responseType y")
     (auto simp add: getResponseBody_cases parseJson_def unparseable_def split: option.splits)

lemma then_mocked_done_eq:
  assumes "objectToHeaders h (case mock_headers m of None \<Rightarrow> [] | Some obj \<Rightarrow> obj) = Some hs"
  shows "then_mocked_done h m req x6 =
     (x6\<lparr> readyState := DONE,
          trace := trace x6
            @ (if readyState x6 = DONE then []
               else [StateChange (readyState x6) DONE,
                     Trigger Readystatechange DONE (EventPolyfill Readystatechange)
                       (targets Readystatechange x6)])
            @ [Trigger Load DONE (ProgressEvent Load True 0 0) (targets Load x6),
               Trigger Loadend DONE (ProgressEvent Loadend True 0 0) (targets Loadend x6),
               Emit req
                 \<lparr> res_status = status x6, res_statusText = statusText x6,
                   res_headers = hs, res_body = map_option JStr (mock_body m) \<rparr>] \<rparr>,
      None)"
  using assms
  by (simp add: then_mocked_done_def Let_def setReadyState_eq trigger_eq createEvent_simps
      targets_def)

lemma truthy_parseJson:
  "truthy (parseJson h b) = (case JSON_parse h b of None \<Rightarrow> False | Some v \<Rightarrow> truthy v)"
  by (simp add: parseJson_def unparseable_def split: option.split)

lemma then_mocked_completes:
  assumes "mocked_completes h m x"
  shows "snd (then_mocked h m req x) = None"
    and "readyState (fst (then_mocked h m req x)) = DONE"
    and "responseText (fst (then_mocked h m req x)) =
           Some (case mock_body m of None \<Rightarrow> [] | Some b \<Rightarrow> b)"
    and "response (fst (then_mocked h m req x)) =
           (case responseType x of
              RT_json \<Rightarrow> parseJson h (case mock_body m of None \<Rightarrow> [] | Some b \<Rightarrow> b)
            | RT_blob \<Rightarrow>
                JBlob (case mock_body m of None \<Rightarrow> [] | Some b \<Rightarrow> b)
                  (case headers_get h (mocked_headers h m) ''content-type'' of
                     None \<Rightarrow> ''text/plain''
                   | Some t \<Rightarrow> if t = [] then ''text/plain'' else t)
            | RT_arraybuffer \<Rightarrow>
                JBytes (the (bufferFrom h (case mock_body m of None \<Rightarrow> [] | Some b \<Rightarrow> b)))
            | _ \<Rightarrow> JStr (case mock_body m of None \<Rightarrow> [] | Some b \<Rightarrow> b))"
    and "trace (fst (then_mocked h m req x)) =
     trace x
     @ [Trigger Loadstart (readyState x) (ProgressEvent Loadstart True 0 0) (targets Loadstart x)]
     @ (if readyState x = HEADERS_RECEIVED then []
        else [StateChange (readyState x) HEADERS_RECEIVED,
              Trigger Readystatechange HEADERS_RECEIVED (EventPolyfill Readystatechange)
                (targets Readystatechange x)])
     @ (if mocked_loading h m x
        then [StateChange HEADERS_RECEIVED LOADING,
              Trigger Readystatechange LOADING (EventPolyfill Readystatechange)
                (targets Readystatechange x),
              Trigger Progress LOADING
                (ProgressEvent Progress True
                   (length (the (bufferFrom h (the (mock_body m)))))
                   (length (the (bufferFrom h (the (mock_body m))))))
                (targets Progress x)]
        else [])
     @ [StateChange (if mocked_loading h m x then LOADING else HEADERS_RECEIVED) DONE,
        Trigger Readystatechange DONE (EventPolyfill Readystatechange)
          (targets Readystatechange x),
        Trigger Load DONE (ProgressEvent Load True 0 0) (targets Load x),
        Trigger Loadend DONE (ProgressEvent Loadend True 0 0) (targets Loadend x),
        Emit req
          \<lparr> res_status = (case mock_status m of None \<Rightarrow> 200 | Some s \<Rightarrow> if s = 0 then 200 else s),
            res_statusText = (case mock_statusText m of None \<Rightarrow> ''OK'' | Some t \<Rightarrow> if t = [] then ''OK'' else t),
            res_headers = the (objectToHeaders h (case mock_headers m of None \<Rightarrow> [] | Some obj \<Rightarrow> obj)),
            res_body = map_option JStr (mock_body m) \<rparr>]"
proof -
  from assms obtain hs where
    hs: "objectToHeaders h (case mock_headers m of None \<Rightarrow> [] | Some obj \<Rightarrow> obj) = Some hs"
    by (auto simp add: mocked_completes_def)
  have bs: "responseType x = RT_arraybuffer \<or> mocked_loading h m x \<Longrightarrow>
      \<exists>bs. bufferFrom h (case mock_body m of None \<Rightarrow> [] | Some b \<Rightarrow> b) = Some bs"
    using assms by (auto simp add: mocked_completes_def split: if_splits)
  note defs = then_mocked_def Let_def then_mocked_done_eq [OF hs] getResponseBody_cases
    getResponseHeader_def mocked_headers_def mocked_loading_def truthy_parseJson
    setReadyState_eq trigger_eq createEvent_simps targets_def
  show "snd (then_mocked h m req x) = None"
    "readyState (fst (then_mocked h m req x)) = DONE"
    "responseText (fst (then_mocked h m req x)) =
           Some (case mock_body m of None \<Rightarrow> [] | Some b \<Rightarrow> b)"
    using hs bs
    by (cases "mock_headers m"; cases "mock_body m"; cases "responseType x";
        auto simp add: defs)+
  show "response (fst (then_mocked h m req x)) =
           (case responseType x of
              RT_json \<Rightarrow> parseJson h (case mock_body m of None \<Rightarrow> [] | Some b \<Rightarrow> b)
            | RT_blob \<Rightarrow>
                JBlob (case mock_body m of None \<Rightarrow> [] | Some b \<Rightarrow> b)
                  (case headers_get h (mocked_headers h m) ''content-type'' of
                     None \<Rightarrow> ''text/plain''
                   | Some t \<Rightarrow> if t = [] then ''text/plain'' else t)
            | RT_arraybuffer \<Rightarrow>
                JBytes (the (bufferFrom h (case mock_body m of None \<Rightarrow> [] | Some b \<Rightarrow> b)))
            | _ \<Rightarrow> JStr (case mock_body m of None \<Rightarrow> [] | Some b \<Rightarrow> b))"
    using hs bs
    by (cases "mock_headers m"; cases "mock_body m"; cases "responseType x";
        auto simp add: defs)
  show "trace (fst (then_mocked h m req x)) =
     trace x
     @ [Trigger Loadstart (readyState x) (ProgressEvent Loadstart True 0 0) (targets Loadstart x)]
     @ (if readyState x = HEADERS_RECEIVED then []
        else [StateChange (readyState x) HEADERS_RECEIVED,
              Trigger Readystatechange HEADERS_RECEIVED (EventPolyfill Readystatechange)
                (targets Readystatechange x)])
     @ (if mocked_loading h m x
        then [StateChange HEADERS_RECEIVED LOADING,
              Trigger Readystatechange LOADING (EventPolyfill Readystatechange)
                (targets Readystatechange x),
              Trigger Progress LOADING
                (ProgressEvent Progress True
                   (length (the (bufferFrom h (the (mock_body m)))))
                   (length (the (bufferFrom h (the (mock_body m))))))
                (targets Progress x)]
        else [])
     @ [StateChange (if mocked_loading h m x then LOADING else HEADERS_RECEIVED) DONE,
        Trigger Readystatechange DONE (EventPolyfill Readystatechange)
          (targets Readystatechange x),
        Trigger Load DONE (ProgressEvent Load True 0 0) (targets Load x),
        Trigger Loadend DONE (ProgressEvent Loadend True 0 0) (targets Loadend x),
        Emit req
          \<lparr> res_status = (case mock_status m of None \<Rightarrow> 200 | Some s \<Rightarrow> if s = 0 then 200 else s),
            res_statusText = (case mock_statusText m of None \<Rightarrow> ''OK'' | Some t \<Rightarrow> if t = [] then ''OK'' else t),
            res_headers = the (objectToHeaders h (case mock_headers m of None \<Rightarrow> [] | Some obj \<Rightarrow> obj)),
            res_body = map_option JStr (mock_body m) \<rparr>]"
    using hs bs
    by (cases "mock_headers m"; cases "mock_body m"; cases "responseType x";
        auto simp add: defs)
qed

subsection \<open>The worked examples\<close>

lemma example_opened_fields:
  "readyState example_opened = OPENED"
  "trace example_opened =
     [StateChange UNSENT OPENED,
      Trigger Readystatechange OPENED (EventPolyfill Readystatechange) []]"
  "targets name example_opened = []"
  "responseType example_opened = RT_text"
  "url example_opened = ''/empty''"
  "method example_opened = ''GET''"
  "data example_opened = ''''"
  "requestHeaders example_opened = []"
  by (cases name;
      simp add: example_opened_def open_def reset_def setReadyState_eq
        XMLHttpRequestOverride_def example_host_def targets_def)+

lemma example_opened_json_fields:
  "readyState example_opened_json = OPENED"
  "trace example_opened_json =
     [StateChange UNSENT OPENED,
      Trigger Readystatechange OPENED (EventPolyfill Readystatechange) []]"
  "targets name example_opened_json = []"
  "responseType example_opened_json = RT_json"
  using example_opened_fields(3) [of name]
  by (cases name; simp add: example_opened_json_def example_opened_fields targets_def)+

lemma example_opened_read:
  "entered (trace example_opened) = [OPENED]"
  "fired (trace example_opened) = [Readystatechange]"
  "progressed (trace example_opened) = []"
  "entered (trace example_opened_json) = [OPENED]"
  "fired (trace example_opened_json) = [Readystatechange]"
  "progressed (trace example_opened_json) = []"
  by (simp_all add: example_opened_fields example_opened_json_fields entered_def fired_def
      progressed_def)

lemma example_send:
  "send example_host None example_opened = (example_opened, Inr example_request)"
  by (simp add: send_def Let_def example_opened_fields example_request_def
      example_host_def example_new_URL_def)

lemma example_host_fields:
  "JSON_parse example_host = example_JSON_parse"
  "bufferFrom example_host = example_bufferFrom"
  "headers_get example_host [] name = None"
  "objectToHeaders example_host = example_objectToHeaders"
  "new_Headers example_host = []"
  "headers_raw example_host hs = hs"
  by (simp_all add: example_host_def)

lemma example_bufferFrom_ascii:
  "example_bufferFrom ''hello'' = Some [104, 101, 108, 108, 111]"
  "example_bufferFrom ''hi'' = Some [104, 105]"
  "example_bufferFrom [] = Some []"
  "example_bufferFrom [CHR 0xED, CHR 0xA0, CHR 0x80] = None"
  by (simp_all add: example_bufferFrom_def)

lemma example_objectToHeaders_simps:
  "example_objectToHeaders [] = Some []"
  "example_objectToHeaders [(''content-type'', ''image/png'')] =
     Some [(''content-type'', ''image/png'')]"
  "example_objectToHeaders [(''bad name'', ''x'')] = None"
  by (simp_all add: example_objectToHeaders_def)

lemma then_mocked_headers_throw:
  assumes "mock_headers m = Some obj" and "objectToHeaders h obj = None"
  shows "then_mocked h m req x =
     ((trigger Loadstart None x)
        \<lparr> status := (case mock_status m of None \<Rightarrow> 200 | Some s \<Rightarrow> if s = 0 then 200 else s),
          statusText := (case mock_statusText m of
                           None \<Rightarrow> ''OK'' | Some t \<Rightarrow> if t = [] then ''OK'' else t) \<rparr>,
      Some HeadersError)"
  using assms by (simp add: then_mocked_def Let_def)

text \<open>
  C3. The resolver returns a response with the header name \<^verbatim>\<open>bad name\<close>, which
  \<^verbatim>\<open>objectToHeaders\<close> refuses. The path fires \<^verbatim>\<open>loadstart\<close> and ends with the
  exception: the instance stays OPENED, and neither \<^verbatim>\<open>load\<close> nor \<^verbatim>\<open>loadend\<close> is
  fired.
\<close>

theorem then_mocked_stops_on_invalid_header:
  "snd (then_mocked example_host
         \<lparr> mock_status = Some 200, mock_statusText = None,
           mock_headers = Some [(''bad name'', ''x'')], mock_body = Some ''hello'' \<rparr>
         example_request example_opened) = Some HeadersError
   \<and> readyState (fst (then_mocked example_host
         \<lparr> mock_status = Some 200, mock_statusText = None,
           mock_headers = Some [(''bad name'', ''x'')], mock_body = Some ''hello'' \<rparr>
         example_request example_opened)) = OPENED
   \<and> fired (trace (fst (then_mocked example_host
         \<lparr> mock_status = Some 200, mock_statusText = None,
           mock_headers = Some [(''bad name'', ''x'')], mock_body = Some ''hello'' \<rparr>
         example_request example_opened))) = [Readystatechange, Loadstart]"
proof -
  let ?m = "\<lparr> mock_status = Some 200, mock_statusText = None,
           mock_headers = Some [(''bad name'', ''x'')], mock_body = Some ''hello'' \<rparr>"
  have refused: "objectToHeaders example_host [(''bad name'', ''x'')] = None"
    by (simp add: example_host_fields example_objectToHeaders_simps)
  have stopped: "then_mocked example_host ?m example_request example_opened =
     ((trigger Loadstart None example_opened)\<lparr> status := 200, statusText := ''OK'' \<rparr>,
      Some HeadersError)"
    using then_mocked_headers_throw [of ?m "[(''bad name'', ''x'')]" example_host
        example_request example_opened] refused
    by simp
  show ?thesis
    by (simp add: stopped trigger_eq example_opened_fields fired_simps)
qed

text \<open>
  C2. The resolver rejects with \<^verbatim>\<open>undefined\<close>, as \<^verbatim>\<open>Promise.reject()\<close> does. The test
  at line 256 is false, the instance fires nothing and stays OPENED, and the request is
  passed through to an original request.
\<close>

theorem falsy_rejection_is_passed_through:
  "\<not> truthy JUndefined
   \<and> send_then example_host (Rejected JUndefined) example_request example_opened =
       (example_opened, Some (then_original example_host example_opened), None)
   \<and> readyState example_opened = OPENED
   \<and> fired (trace example_opened) = [Readystatechange]"
  by (simp add: send_then_def example_opened_fields fired_simps)

subsection \<open>The mocked response: states and events\<close>

lemma entered_then_mocked:
  "mocked_completes h m x \<Longrightarrow>
   entered (trace (fst (then_mocked h m req x))) =
     entered (trace x)
     @ (if readyState x = HEADERS_RECEIVED then [] else [HEADERS_RECEIVED])
     @ (if mocked_loading h m x then [LOADING] else [])
     @ [DONE]"
  by (simp add: then_mocked_completes(5) entered_simps)

lemma progressed_then_mocked:
  "mocked_completes h m x \<Longrightarrow>
   progressed (trace (fst (then_mocked h m req x))) =
     progressed (trace x)
     @ (if mocked_loading h m x
        then [(length (the (bufferFrom h (the (mock_body m)))),
               length (the (bufferFrom h (the (mock_body m)))))]
        else [])"
  by (simp add: then_mocked_completes(5) progressed_def)

lemma fired_then_mocked:
  "mocked_completes h m x \<Longrightarrow>
   fired (trace (fst (then_mocked h m req x))) =
     fired (trace x)
     @ [Loadstart]
     @ (if readyState x = HEADERS_RECEIVED then [] else [Readystatechange])
     @ (if mocked_loading h m x then [Readystatechange, Progress] else [])
     @ [Readystatechange, Load, Loadend]"
  by (simp add: then_mocked_completes(5) fired_simps)

text \<open>
  C4, as amended. The response has a body that is not empty, \<^verbatim>\<open>objectToHeaders\<close>
  accepts its headers and \<^verbatim>\<open>bufferFrom\<close> encodes its body. When the coerced response
  is truthy (always, unless \<^verbatim>\<open>responseType\<close> is \<^verbatim>\<open>json\<close>; under \<^verbatim>\<open>json\<close>, when
  the body parses to a truthy value), the path enters LOADING from HEADERS_RECEIVED
  and then DONE from LOADING, and fires one \<^verbatim>\<open>progress\<close> event, in state LOADING,
  whose \<^verbatim>\<open>loaded\<close> and \<^verbatim>\<open>total\<close> are the length of \<^verbatim>\<open>bufferFrom(body)\<close>. When
  \<^verbatim>\<open>responseType\<close> is \<^verbatim>\<open>json\<close> and the body does not parse, the coerced response
  is absent, and the path goes from HEADERS_RECEIVED to DONE and fires no
  \<^verbatim>\<open>progress\<close>.
\<close>

theorem then_mocked_progress:
  "(mock_body m = Some b \<and> b \<noteq> [] \<and>
      (responseType x \<noteq> RT_json \<or>
       (case JSON_parse h b of None \<Rightarrow> False | Some v \<Rightarrow> truthy v)) \<and>
      objectToHeaders h (case mock_headers m of None \<Rightarrow> [] | Some obj \<Rightarrow> obj) \<noteq> None \<and>
      bufferFrom h b = Some bodyBuffer \<longrightarrow>
      snd (then_mocked h m req x) = None
      \<and> (\<exists>snapshot.
         trace (fst (then_mocked h m req x)) =
           trace x
           @ [Trigger Loadstart (readyState x) (ProgressEvent Loadstart True 0 0)
                (targets Loadstart x)]
           @ (if readyState x = HEADERS_RECEIVED then []
              else [StateChange (readyState x) HEADERS_RECEIVED,
                    Trigger Readystatechange HEADERS_RECEIVED
                      (EventPolyfill Readystatechange) (targets Readystatechange x)])
           @ [StateChange HEADERS_RECEIVED LOADING,
              Trigger Readystatechange LOADING (EventPolyfill Readystatechange)
                (targets Readystatechange x),
              Trigger Progress LOADING
                (ProgressEvent Progress True (length bodyBuffer) (length bodyBuffer))
                (targets Progress x),
              StateChange LOADING DONE,
              Trigger Readystatechange DONE (EventPolyfill Readystatechange)
                (targets Readystatechange x),
              Trigger Load DONE (ProgressEvent Load True 0 0) (targets Load x),
              Trigger Loadend DONE (ProgressEvent Loadend True 0 0) (targets Loadend x),
              Emit req snapshot])
      \<and> entered (trace (fst (then_mocked h m req x))) =
          entered (trace x)
          @ (if readyState x = HEADERS_RECEIVED then [] else [HEADERS_RECEIVED])
          @ [LOADING, DONE]
      \<and> progressed (trace (fst (then_mocked h m req x))) =
          progressed (trace x) @ [(length bodyBuffer, length bodyBuffer)])
   \<and> (mock_body m = Some b \<and> b \<noteq> [] \<and> responseType x = RT_json \<and>
      JSON_parse h b = None \<and>
      objectToHeaders h (case mock_headers m of None \<Rightarrow> [] | Some obj \<Rightarrow> obj) \<noteq> None \<longrightarrow>
      snd (then_mocked h m req x) = None
      \<and> entered (trace (fst (then_mocked h m req x))) =
          entered (trace x)
          @ (if readyState x = HEADERS_RECEIVED then [] else [HEADERS_RECEIVED]) @ [DONE]
      \<and> progressed (trace (fst (then_mocked h m req x))) = progressed (trace x))"
proof (intro conjI impI)
  assume truthy_body: "mock_body m = Some b \<and> b \<noteq> [] \<and>
      (responseType x \<noteq> RT_json \<or>
       (case JSON_parse h b of None \<Rightarrow> False | Some v \<Rightarrow> truthy v)) \<and>
      objectToHeaders h (case mock_headers m of None \<Rightarrow> [] | Some obj \<Rightarrow> obj) \<noteq> None \<and>
      bufferFrom h b = Some bodyBuffer"
  then have body: "mock_body m = Some b" and buffer: "bufferFrom h b = Some bodyBuffer"
    and loading: "mocked_loading h m x"
    by (simp_all add: mocked_loading_def)
  have completes: "mocked_completes h m x"
    using truthy_body by (simp add: mocked_completes_def)
  show "snd (then_mocked h m req x) = None"
    using completes by (rule then_mocked_completes)
  show "\<exists>snapshot.
         trace (fst (then_mocked h m req x)) =
           trace x
           @ [Trigger Loadstart (readyState x) (ProgressEvent Loadstart True 0 0)
                (targets Loadstart x)]
           @ (if readyState x = HEADERS_RECEIVED then []
              else [StateChange (readyState x) HEADERS_RECEIVED,
                    Trigger Readystatechange HEADERS_RECEIVED
                      (EventPolyfill Readystatechange) (targets Readystatechange x)])
           @ [StateChange HEADERS_RECEIVED LOADING,
              Trigger Readystatechange LOADING (EventPolyfill Readystatechange)
                (targets Readystatechange x),
              Trigger Progress LOADING
                (ProgressEvent Progress True (length bodyBuffer) (length bodyBuffer))
                (targets Progress x),
              StateChange LOADING DONE,
              Trigger Readystatechange DONE (EventPolyfill Readystatechange)
                (targets Readystatechange x),
              Trigger Load DONE (ProgressEvent Load True 0 0) (targets Load x),
              Trigger Loadend DONE (ProgressEvent Loadend True 0 0) (targets Loadend x),
              Emit req snapshot]"
    using loading body buffer by (simp add: then_mocked_completes(5) [OF completes])
  show "entered (trace (fst (then_mocked h m req x))) =
          entered (trace x)
          @ (if readyState x = HEADERS_RECEIVED then [] else [HEADERS_RECEIVED])
          @ [LOADING, DONE]"
    using loading by (simp add: entered_then_mocked [OF completes])
  show "progressed (trace (fst (then_mocked h m req x))) =
          progressed (trace x) @ [(length bodyBuffer, length bodyBuffer)]"
    using loading body buffer by (simp add: progressed_then_mocked [OF completes])
next
  assume no_parse: "mock_body m = Some b \<and> b \<noteq> [] \<and> responseType x = RT_json \<and>
      JSON_parse h b = None \<and>
      objectToHeaders h (case mock_headers m of None \<Rightarrow> [] | Some obj \<Rightarrow> obj) \<noteq> None"
  then have direct: "\<not> mocked_loading h m x"
    by (simp add: mocked_loading_def)
  have completes: "mocked_completes h m x"
    using no_parse direct by (simp add: mocked_completes_def)
  show "snd (then_mocked h m req x) = None"
    using completes by (rule then_mocked_completes)
  show "entered (trace (fst (then_mocked h m req x))) =
        entered (trace x)
        @ (if readyState x = HEADERS_RECEIVED then [] else [HEADERS_RECEIVED]) @ [DONE]"
    using direct by (simp add: entered_then_mocked [OF completes])
  show "progressed (trace (fst (then_mocked h m req x))) = progressed (trace x)"
    using direct by (simp add: progressed_then_mocked [OF completes])
qed

lemma example_mock_fields:
  "mock_body (example_mock b) = Some b"
  "mock_headers (example_mock b) = None"
  "mock_body example_mock_empty = None"
  "mock_headers example_mock_empty = None"
  by (simp_all add: example_mock_def example_mock_empty_def)

theorem then_mocked_progress_witness:
  "(mock_body (example_mock ''hello'') = Some ''hello'' \<and> ''hello'' \<noteq> [] \<and>
      responseType example_opened \<noteq> RT_json \<and>
      objectToHeaders example_host [] \<noteq> None \<and>
      bufferFrom example_host ''hello'' = Some [104, 101, 108, 108, 111])
   \<and> entered (trace (fst (then_mocked example_host (example_mock ''hello'') example_request
         example_opened))) = [OPENED, HEADERS_RECEIVED, LOADING, DONE]
   \<and> progressed (trace (fst (then_mocked example_host (example_mock ''hello'')
         example_request example_opened))) = [(5, 5)]
   \<and> (responseType example_opened_json = RT_json \<and>
       JSON_parse example_host ''hello'' = None)
   \<and> entered (trace (fst (then_mocked example_host (example_mock ''hello'') example_request
         example_opened_json))) = [OPENED, HEADERS_RECEIVED, DONE]
   \<and> progressed (trace (fst (then_mocked example_host (example_mock ''hello'')
         example_request example_opened_json))) = []"
proof -
  note text_case = then_mocked_progress
    [of "example_mock ''hello''" "''hello''" example_opened example_host
        "[104, 101, 108, 108, 111]" example_request]
  note json_case = then_mocked_progress
    [of "example_mock ''hello''" "''hello''" example_opened_json example_host
        "[104, 101, 108, 108, 111]" example_request]
  have shown1: "mock_body (example_mock ''hello'') = Some ''hello'' \<and> ''hello'' \<noteq> [] \<and>
      responseType example_opened \<noteq> RT_json \<and>
      objectToHeaders example_host [] \<noteq> None \<and>
      bufferFrom example_host ''hello'' = Some [104, 101, 108, 108, 111]"
    by (simp add: example_mock_fields example_opened_fields example_host_fields
        example_objectToHeaders_simps example_bufferFrom_ascii)
  then have hyp1: "mock_body (example_mock ''hello'') = Some ''hello'' \<and> ''hello'' \<noteq> [] \<and>
      (responseType example_opened \<noteq> RT_json \<or>
       (case JSON_parse example_host ''hello'' of None \<Rightarrow> False | Some v \<Rightarrow> truthy v)) \<and>
      objectToHeaders example_host
        (case mock_headers (example_mock ''hello'') of None \<Rightarrow> [] | Some obj \<Rightarrow> obj) \<noteq> None \<and>
      bufferFrom example_host ''hello'' = Some [104, 101, 108, 108, 111]"
    by (simp add: example_mock_fields)
  have shown2: "responseType example_opened_json = RT_json \<and>
       JSON_parse example_host ''hello'' = None"
    by (simp add: example_opened_json_fields example_host_fields example_JSON_parse_def)
  then have hyp2: "mock_body (example_mock ''hello'') = Some ''hello'' \<and> ''hello'' \<noteq> [] \<and>
      responseType example_opened_json = RT_json \<and> JSON_parse example_host ''hello'' = None \<and>
      objectToHeaders example_host
        (case mock_headers (example_mock ''hello'') of None \<Rightarrow> [] | Some obj \<Rightarrow> obj) \<noteq> None"
    using shown1 by (simp add: example_mock_fields)
  note first = text_case [THEN conjunct1, rule_format, OF hyp1]
  note second = json_case [THEN conjunct2, rule_format, OF hyp2]
  have e1: "entered (trace (fst (then_mocked example_host (example_mock ''hello'')
         example_request example_opened))) = [OPENED, HEADERS_RECEIVED, LOADING, DONE]"
    using first by (simp add: example_opened_fields(1) example_opened_read)
  have p1: "progressed (trace (fst (then_mocked example_host (example_mock ''hello'')
         example_request example_opened))) = [(5, 5)]"
    using first by (simp add: example_opened_read)
  have e2: "entered (trace (fst (then_mocked example_host (example_mock ''hello'')
         example_request example_opened_json))) = [OPENED, HEADERS_RECEIVED, DONE]"
    using second by (simp add: example_opened_json_fields(1) example_opened_read)
  have p2: "progressed (trace (fst (then_mocked example_host (example_mock ''hello'')
         example_request example_opened_json))) = []"
    using second by (simp add: example_opened_read)
  show ?thesis
    using shown1 e1 p1 shown2 e2 p2 by blast
qed

text \<open>
  C4 as stated fails: under \<^verbatim>\<open>responseType = 'json'\<close> the body \<^verbatim>\<open>{not json\<close> is not
  empty and does not parse; the path completes, never enters LOADING and fires no
  \<^verbatim>\<open>progress\<close>.
\<close>

theorem then_mocked_progress_counterexample:
  "mock_body (example_mock ''{not json'') = Some ''{not json''
   \<and> responseType example_opened_json = RT_json
   \<and> JSON_parse example_host ''{not json'' = None
   \<and> then_mocked example_host (example_mock ''{not json'') example_request
        example_opened_json =
       (fst (then_mocked example_host (example_mock ''{not json'') example_request
          example_opened_json), None)
   \<and> entered (trace (fst (then_mocked example_host (example_mock ''{not json'')
        example_request example_opened_json))) = [OPENED, HEADERS_RECEIVED, DONE]
   \<and> progressed (trace (fst (then_mocked example_host (example_mock ''{not json'')
        example_request example_opened_json))) = []"
proof -
  have body: "mock_body (example_mock ''{not json'') = Some ''{not json''"
    by (rule example_mock_fields)
  have json: "responseType example_opened_json = RT_json"
    by (rule example_opened_json_fields)
  have no_parse: "JSON_parse example_host ''{not json'' = None"
    by (simp add: example_host_fields example_JSON_parse_def)
  have direct: "\<not> mocked_loading example_host (example_mock ''{not json'') example_opened_json"
    by (simp add: mocked_loading_def body json no_parse)
  have completes: "mocked_completes example_host (example_mock ''{not json'')
      example_opened_json"
    using direct
    by (simp add: mocked_completes_def json example_mock_fields example_host_fields
        example_objectToHeaders_simps)
  have "snd (then_mocked example_host (example_mock ''{not json'') example_request
        example_opened_json) = None"
    using completes by (rule then_mocked_completes)
  then have returns: "then_mocked example_host (example_mock ''{not json'') example_request
        example_opened_json =
       (fst (then_mocked example_host (example_mock ''{not json'') example_request
          example_opened_json), None)"
    by (simp add: prod_eq_iff)
  have e: "entered (trace (fst (then_mocked example_host (example_mock ''{not json'')
        example_request example_opened_json))) = [OPENED, HEADERS_RECEIVED, DONE]"
    using direct
    by (simp add: entered_then_mocked [OF completes] example_opened_json_fields(1)
        example_opened_read)
  have p: "progressed (trace (fst (then_mocked example_host (example_mock ''{not json'')
        example_request example_opened_json))) = []"
    using direct by (simp add: progressed_then_mocked [OF completes] example_opened_read)
  show ?thesis
    by (intro conjI; rule body json no_parse returns e p)
qed

subsection \<open>The resolver threw\<close>

lemma abort_in_flight:
  "UNSENT < readyState x \<Longrightarrow> readyState x < DONE \<Longrightarrow>
   abort x =
     x\<lparr> readyState := UNSENT,
        trace := trace x @
          [StateChange (readyState x) UNSENT,
           Trigger Abort UNSENT (ProgressEvent Abort True 0 0) (targets Abort x)] \<rparr>"
  by (simp add: abort_def setReadyState_eq trigger_eq createEvent_simps targets_def)

lemma abort_settled:
  "\<not> (UNSENT < readyState x \<and> readyState x < DONE) \<Longrightarrow> abort x = x"
  by (auto simp add: abort_def)

lemma then_exception_in_flight:
  "UNSENT < readyState x \<Longrightarrow> readyState x < DONE \<Longrightarrow>
   then_exception x =
     x\<lparr> readyState := UNSENT,
        trace := trace x @
          [Trigger Error (readyState x) (ProgressEvent Error True 0 0) (targets Error x),
           StateChange (readyState x) UNSENT,
           Trigger Abort UNSENT (ProgressEvent Abort True 0 0) (targets Abort x)] \<rparr>"
  by (simp add: then_exception_def abort_def setReadyState_eq trigger_eq createEvent_simps
      targets_def)

lemma then_exception_settled:
  "\<not> (UNSENT < readyState x \<and> readyState x < DONE) \<Longrightarrow>
   then_exception x =
     x\<lparr> trace := trace x @
          [Trigger Error (readyState x) (ProgressEvent Error True 0 0) (targets Error x)] \<rparr>"
  by (auto simp add: then_exception_def abort_def trigger_eq createEvent_simps)

lemma readyState_open: "readyState (open h m u a usr pwd x) = OPENED"
  by (simp add: open_def Let_def setReadyState_eq split: option.split)

lemma setRequestHeaders_eq:
  "foldl (\<lambda>y (name, value). setRequestHeader h name value y) x hs =
     x\<lparr> requestHeaders :=
          foldl (\<lambda>hd (name, value). headers_append h name value hd) (requestHeaders x) hs \<rparr>"
  by (induction hs arbitrary: x) (simp_all add: setRequestHeader_def split_beta)

lemma fst_send:
  "fst (send h d x) = x\<lparr> data := (case d of None \<Rightarrow> [] | Some s \<Rightarrow> s) \<rparr>"
  by (simp add: send_def Let_def split: option.split)

lemma readyState_sent:
  "readyState (fst (send h d
      (foldl (\<lambda>y (name, value). setRequestHeader h name value y)
         (open h m u a usr pwd x) hs))) = OPENED"
  by (simp add: fst_send setRequestHeaders_eq readyState_open)

lemma send_then_rejected_truthy:
  "truthy e \<Longrightarrow> send_then h (Rejected e) req x = (then_exception x, None, None)"
  by (simp add: send_then_def)

lemma send_then_rejected_falsy:
  "\<not> truthy e \<Longrightarrow> send_then h (Rejected e) req x = (x, Some (then_original h x), None)"
  by (simp add: send_then_def)

lemma send_then_mocked:
  "send_then h (Resolved (Some m)) req x =
     (fst (then_mocked h m req x), None, snd (then_mocked h m req x))"
  by (simp add: send_then_def split: prod.split)

subsection \<open>A settlement that comes late\<close>

lemma mocked_loading_state:
  "responseType y = responseType x \<Longrightarrow> mocked_loading h m y = mocked_loading h m x"
  by (simp add: mocked_loading_def split: option.split)

lemma mocked_completes_state:
  "responseType y = responseType x \<Longrightarrow> mocked_completes h m y = mocked_completes h m x"
  by (simp add: mocked_completes_def mocked_loading_state [of y x])

lemma targets_updates:
  "targets name (x\<lparr> readyState := r \<rparr>) = targets name x"
  "targets name (x\<lparr> trace := t \<rparr>) = targets name x"
  "targets name (x\<lparr> requestHeaders := rq \<rparr>) = targets name x"
  "targets name (x\<lparr> responseHeaders := rs \<rparr>) = targets name x"
  "targets name (x\<lparr> status := st \<rparr>) = targets name x"
  "targets name (x\<lparr> statusText := stt \<rparr>) = targets name x"
  "targets name (x\<lparr> data := d \<rparr>) = targets name x"
  "targets name (x\<lparr> response := rv \<rparr>) = targets name x"
  "targets name (x\<lparr> responseText := rt \<rparr>) = targets name x"
  "targets name (x\<lparr> responseXML := rx \<rparr>) = targets name x"
  "targets name (x\<lparr> url := u \<rparr>) = targets name x"
  "targets name (x\<lparr> method := m \<rparr>) = targets name x"
  "targets name (x\<lparr> async := a \<rparr>) = targets name x"
  "targets name (x\<lparr> user := us \<rparr>) = targets name x"
  "targets name (x\<lparr> password := pw \<rparr>) = targets name x"
  by (cases name; simp add: targets_def)+

lemma targets_setReadyState: "targets name (setReadyState n x) = targets name x"
  by (simp add: setReadyState_eq targets_updates)

lemma targets_trigger: "targets name (trigger ev init x) = targets name x"
  by (simp add: trigger_eq targets_updates)

lemma abort_fields:
  "responseType (abort x) = responseType x"
  "targets name (abort x) = targets name x"
  by (simp_all add: abort_def targets_trigger targets_setReadyState)
     (simp add: setReadyState_eq trigger_eq)

lemma open_fields:
  "responseType (open h m u a usr pwd x) = responseType x"
  "targets name (open h m u a usr pwd x) = targets name x"
  by (simp_all add: open_def reset_def Let_def targets_updates targets_setReadyState
      split: option.split)
     (simp add: setReadyState_eq)

text \<open>
  C9, as amended. The function given to \<^verbatim>\<open>then\<close> has no test for a send that was
  superseded: it runs on the instance as \<^verbatim>\<open>abort\<close> or \<^verbatim>\<open>open\<close> left it. After
  \<^verbatim>\<open>abort\<close> on an instance in flight, a late failure with a truthy reason fires
  \<^verbatim>\<open>error\<close> and nothing else, and the state stays UNSENT; a late response, when no
  call on the mocked path throws, runs the whole mocked path, from UNSENT to DONE, with
  \<^verbatim>\<open>loadstart\<close>, \<^verbatim>\<open>load\<close> and \<^verbatim>\<open>loadend\<close>. After \<^verbatim>\<open>open\<close>, such a late
  response of the earlier send takes the newly opened instance to DONE in the same way.
\<close>

theorem late_settlement_runs:
  "(UNSENT < readyState x \<and> readyState x < DONE \<longrightarrow>
      readyState (abort x) = UNSENT
      \<and> (truthy e \<longrightarrow>
           send_then h (Rejected e) req (abort x) =
             ((abort x)\<lparr> trace := trace (abort x) @
                 [Trigger Error UNSENT (ProgressEvent Error True 0 0) (targets Error x)] \<rparr>,
              None, None))
      \<and> (mocked_completes h m x \<longrightarrow>
           send_then h (Resolved (Some m)) req (abort x) =
             (fst (then_mocked h m req (abort x)), None, None)
           \<and> readyState (fst (send_then h (Resolved (Some m)) req (abort x))) = DONE
           \<and> entered (trace (fst (send_then h (Resolved (Some m)) req (abort x)))) =
               entered (trace (abort x))
               @ [HEADERS_RECEIVED] @ (if mocked_loading h m x then [LOADING] else []) @ [DONE]
           \<and> fired (trace (fst (send_then h (Resolved (Some m)) req (abort x)))) =
               fired (trace (abort x))
               @ [Loadstart, Readystatechange]
               @ (if mocked_loading h m x then [Readystatechange, Progress] else [])
               @ [Readystatechange, Load, Loadend]))
   \<and> (mocked_completes h m x \<longrightarrow>
        readyState (fst (send_then h (Resolved (Some m)) req (open h m' u a usr pwd x))) = DONE
        \<and> entered (trace (fst (send_then h (Resolved (Some m)) req
              (open h m' u a usr pwd x)))) =
            entered (trace (open h m' u a usr pwd x))
            @ [HEADERS_RECEIVED] @ (if mocked_loading h m x then [LOADING] else []) @ [DONE]
        \<and> fired (trace (fst (send_then h (Resolved (Some m)) req
              (open h m' u a usr pwd x)))) =
            fired (trace (open h m' u a usr pwd x))
            @ [Loadstart, Readystatechange]
            @ (if mocked_loading h m x then [Readystatechange, Progress] else [])
            @ [Readystatechange, Load, Loadend])"
proof -
  have aborted: "readyState (abort x) = UNSENT"
    if "UNSENT < readyState x \<and> readyState x < DONE"
    using that by (simp add: abort_in_flight)
  have failure: "send_then h (Rejected e) req (abort x) =
             ((abort x)\<lparr> trace := trace (abort x) @
                 [Trigger Error UNSENT (ProgressEvent Error True 0 0) (targets Error x)] \<rparr>,
              None, None)"
    if "UNSENT < readyState x \<and> readyState x < DONE" and "truthy e"
    using then_exception_settled [of "abort x"] aborted [OF that(1)] that(2)
    by (simp add: send_then_rejected_truthy abort_fields)
  have late: "send_then h (Resolved (Some m)) req y = (fst (then_mocked h m req y), None, None)
      \<and> readyState (fst (send_then h (Resolved (Some m)) req y)) = DONE
      \<and> entered (trace (fst (send_then h (Resolved (Some m)) req y))) =
          entered (trace y)
          @ [HEADERS_RECEIVED] @ (if mocked_loading h m x then [LOADING] else []) @ [DONE]
      \<and> fired (trace (fst (send_then h (Resolved (Some m)) req y))) =
          fired (trace y)
          @ [Loadstart, Readystatechange]
          @ (if mocked_loading h m x then [Readystatechange, Progress] else [])
          @ [Readystatechange, Load, Loadend]"
    if "mocked_completes h m x" and same: "responseType y = responseType x"
      and before: "readyState y \<noteq> HEADERS_RECEIVED" for y
  proof -
    have completes: "mocked_completes h m y"
      using that by (simp add: mocked_completes_state [OF same])
    show ?thesis
      using before
      by (simp add: send_then_mocked then_mocked_completes(1,2) [OF completes]
          entered_then_mocked [OF completes] fired_then_mocked [OF completes]
          mocked_loading_state [OF same])
  qed
  have late_abort: "send_then h (Resolved (Some m)) req (abort x) =
             (fst (then_mocked h m req (abort x)), None, None)
           \<and> readyState (fst (send_then h (Resolved (Some m)) req (abort x))) = DONE
           \<and> entered (trace (fst (send_then h (Resolved (Some m)) req (abort x)))) =
               entered (trace (abort x))
               @ [HEADERS_RECEIVED] @ (if mocked_loading h m x then [LOADING] else []) @ [DONE]
           \<and> fired (trace (fst (send_then h (Resolved (Some m)) req (abort x)))) =
               fired (trace (abort x))
               @ [Loadstart, Readystatechange]
               @ (if mocked_loading h m x then [Readystatechange, Progress] else [])
               @ [Readystatechange, Load, Loadend]"
    if "UNSENT < readyState x \<and> readyState x < DONE" and "mocked_completes h m x"
  proof -
    have "readyState (abort x) \<noteq> HEADERS_RECEIVED"
      using aborted [OF that(1)] by simp
    then show ?thesis
      by (rule late [OF that(2) abort_fields(1)])
  qed
  have late_open: "readyState (fst (send_then h (Resolved (Some m)) req (open h m' u a usr pwd x))) = DONE
        \<and> entered (trace (fst (send_then h (Resolved (Some m)) req
              (open h m' u a usr pwd x)))) =
            entered (trace (open h m' u a usr pwd x))
            @ [HEADERS_RECEIVED] @ (if mocked_loading h m x then [LOADING] else []) @ [DONE]
        \<and> fired (trace (fst (send_then h (Resolved (Some m)) req
              (open h m' u a usr pwd x)))) =
            fired (trace (open h m' u a usr pwd x))
            @ [Loadstart, Readystatechange]
            @ (if mocked_loading h m x then [Readystatechange, Progress] else [])
            @ [Readystatechange, Load, Loadend]"
    if "mocked_completes h m x"
  proof -
    have "readyState (open h m' u a usr pwd x) \<noteq> HEADERS_RECEIVED"
      by (simp add: readyState_open)
    then show ?thesis
      using late [OF that open_fields(1), of h m' u a usr pwd] by blast
  qed
  show ?thesis
  proof (rule conjI)
    show "mocked_completes h m x \<longrightarrow>
        readyState (fst (send_then h (Resolved (Some m)) req (open h m' u a usr pwd x))) = DONE
        \<and> entered (trace (fst (send_then h (Resolved (Some m)) req
              (open h m' u a usr pwd x)))) =
            entered (trace (open h m' u a usr pwd x))
            @ [HEADERS_RECEIVED] @ (if mocked_loading h m x then [LOADING] else []) @ [DONE]
        \<and> fired (trace (fst (send_then h (Resolved (Some m)) req
              (open h m' u a usr pwd x)))) =
            fired (trace (open h m' u a usr pwd x))
            @ [Loadstart, Readystatechange]
            @ (if mocked_loading h m x then [Readystatechange, Progress] else [])
            @ [Readystatechange, Load, Loadend]"
      using late_open by (rule impI)
  next
    show "UNSENT < readyState x \<and> readyState x < DONE \<longrightarrow>
      readyState (abort x) = UNSENT
      \<and> (truthy e \<longrightarrow>
           send_then h (Rejected e) req (abort x) =
             ((abort x)\<lparr> trace := trace (abort x) @
                 [Trigger Error UNSENT (ProgressEvent Error True 0 0) (targets Error x)] \<rparr>,
              None, None))
      \<and> (mocked_completes h m x \<longrightarrow>
           send_then h (Resolved (Some m)) req (abort x) =
             (fst (then_mocked h m req (abort x)), None, None)
           \<and> readyState (fst (send_then h (Resolved (Some m)) req (abort x))) = DONE
           \<and> entered (trace (fst (send_then h (Resolved (Some m)) req (abort x)))) =
               entered (trace (abort x))
               @ [HEADERS_RECEIVED] @ (if mocked_loading h m x then [LOADING] else []) @ [DONE]
           \<and> fired (trace (fst (send_then h (Resolved (Some m)) req (abort x)))) =
               fired (trace (abort x))
               @ [Loadstart, Readystatechange]
               @ (if mocked_loading h m x then [Readystatechange, Progress] else [])
               @ [Readystatechange, Load, Loadend])"
    proof (rule impI, intro conjI)
      assume f: "UNSENT < readyState x \<and> readyState x < DONE"
      show "readyState (abort x) = UNSENT"
        using f by (rule aborted)
      show "truthy e \<longrightarrow>
           send_then h (Rejected e) req (abort x) =
             ((abort x)\<lparr> trace := trace (abort x) @
                 [Trigger Error UNSENT (ProgressEvent Error True 0 0) (targets Error x)] \<rparr>,
              None, None)"
        using failure [OF f] by (rule impI)
      show "mocked_completes h m x \<longrightarrow>
           send_then h (Resolved (Some m)) req (abort x) =
             (fst (then_mocked h m req (abort x)), None, None)
           \<and> readyState (fst (send_then h (Resolved (Some m)) req (abort x))) = DONE
           \<and> entered (trace (fst (send_then h (Resolved (Some m)) req (abort x)))) =
               entered (trace (abort x))
               @ [HEADERS_RECEIVED] @ (if mocked_loading h m x then [LOADING] else []) @ [DONE]
           \<and> fired (trace (fst (send_then h (Resolved (Some m)) req (abort x)))) =
               fired (trace (abort x))
               @ [Loadstart, Readystatechange]
               @ (if mocked_loading h m x then [Readystatechange, Progress] else [])
               @ [Readystatechange, Load, Loadend]"
        using late_abort [OF f] by (rule impI)
    qed
  qed
qed

lemma example_completes:
  "mocked_completes example_host example_mock_empty example_opened"
  "mocked_completes example_host (example_mock ''hello'') example_opened"
  "\<not> mocked_loading example_host example_mock_empty example_opened"
  "mocked_loading example_host (example_mock ''hello'') example_opened"
  by (simp_all add: mocked_completes_def mocked_loading_def example_mock_fields
      example_opened_fields example_host_fields example_objectToHeaders_simps
      example_bufferFrom_ascii)

lemma example_aborted:
  "readyState (abort example_opened) = UNSENT"
  "fired (trace (abort example_opened)) = [Readystatechange, Abort]"
  by (simp_all add: abort_in_flight example_opened_fields fired_simps)

theorem late_settlement_runs_witness:
  "(UNSENT < readyState example_opened \<and> readyState example_opened < DONE)
   \<and> readyState (abort example_opened) = UNSENT
   \<and> truthy (JStr ''failed'')
   \<and> fired (trace (fst (send_then example_host (Rejected (JStr ''failed'')) example_request
        (abort example_opened)))) = [Readystatechange, Abort, Error]
   \<and> mocked_completes example_host example_mock_empty example_opened
   \<and> readyState (fst (send_then example_host (Resolved (Some example_mock_empty))
        example_request (abort example_opened))) = DONE
   \<and> fired (trace (fst (send_then example_host (Resolved (Some example_mock_empty))
        example_request (abort example_opened)))) =
       [Readystatechange, Abort, Loadstart, Readystatechange, Readystatechange, Load, Loadend]"
proof -
  note at_example = late_settlement_runs
    [of example_opened "JStr ''failed''" example_host example_request example_mock_empty]
  have in_flight: "UNSENT < readyState example_opened \<and> readyState example_opened < DONE"
    by (simp add: example_opened_fields)
  have in_flight1: "UNSENT < readyState example_opened"
    and in_flight2: "readyState example_opened < DONE"
    using in_flight by simp_all
  have reason: "truthy (JStr ''failed'')"
    by simp
  note completes = example_completes(1)
  note after_abort = at_example [THEN conjunct1, rule_format, OF in_flight]
  have unsent: "readyState (abort example_opened) = UNSENT"
    using after_abort by (elim conjE)
  have "send_then example_host (Rejected (JStr ''failed'')) example_request
          (abort example_opened) =
          ((abort example_opened)\<lparr> trace := trace (abort example_opened) @
              [Trigger Error UNSENT (ProgressEvent Error True 0 0)
                 (targets Error example_opened)] \<rparr>,
           None, None)"
    using after_abort [THEN conjunct2, THEN conjunct1, rule_format, OF reason] .
  then have failed: "fired (trace (fst (send_then example_host (Rejected (JStr ''failed''))
      example_request (abort example_opened)))) = [Readystatechange, Abort, Error]"
    by (simp add: example_aborted fired_simps)
  note mocked = after_abort [THEN conjunct2, THEN conjunct2, rule_format, OF completes]
  have finished: "readyState (fst (send_then example_host (Resolved (Some example_mock_empty))
        example_request (abort example_opened))) = DONE"
    using mocked by (elim conjE)
  have "fired (trace (fst (send_then example_host (Resolved (Some example_mock_empty))
        example_request (abort example_opened)))) =
      fired (trace (abort example_opened))
      @ [Loadstart, Readystatechange]
      @ (if mocked_loading example_host example_mock_empty example_opened
         then [Readystatechange, Progress] else [])
      @ [Readystatechange, Load, Loadend]"
    using mocked by (elim conjE)
  then have events: "fired (trace (fst (send_then example_host
        (Resolved (Some example_mock_empty)) example_request (abort example_opened)))) =
       [Readystatechange, Abort, Loadstart, Readystatechange, Readystatechange, Load, Loadend]"
    by (simp add: example_aborted example_completes)
  show ?thesis
    by (intro conjI;
        rule in_flight1 in_flight2 unsent reason failed completes finished events)
qed

text \<open>
  C9 as stated fails: \<^verbatim>\<open>open\<close>, \<^verbatim>\<open>send\<close>, \<^verbatim>\<open>abort\<close>, and then the resolver
  returns a response. The instance was UNSENT; the late response fires seven more
  events on it and leaves it DONE.
\<close>

theorem late_settlement_counterexample:
  "send example_host None example_opened = (example_opened, Inr example_request)
   \<and> readyState (abort example_opened) = UNSENT
   \<and> fired (trace (abort example_opened)) = [Readystatechange, Abort]
   \<and> readyState (fst (send_then example_host (Resolved (Some (example_mock ''hello'')))
        example_request (abort example_opened))) = DONE
   \<and> fired (trace (fst (send_then example_host (Resolved (Some (example_mock ''hello'')))
        example_request (abort example_opened)))) =
       [Readystatechange, Abort,
        Loadstart, Readystatechange, Readystatechange, Progress, Readystatechange, Load,
        Loadend]"
proof -
  have completes: "mocked_completes example_host (example_mock ''hello'') (abort example_opened)"
    by (simp add: mocked_completes_state [OF abort_fields(1)] example_completes)
  have loading: "mocked_loading example_host (example_mock ''hello'') (abort example_opened)"
    by (simp add: mocked_loading_state [OF abort_fields(1)] example_completes)
  have finished: "readyState (fst (send_then example_host
      (Resolved (Some (example_mock ''hello''))) example_request (abort example_opened))) = DONE"
    by (simp add: send_then_mocked then_mocked_completes(2) [OF completes])
  have events: "fired (trace (fst (send_then example_host
      (Resolved (Some (example_mock ''hello''))) example_request (abort example_opened)))) =
       [Readystatechange, Abort,
        Loadstart, Readystatechange, Readystatechange, Progress, Readystatechange, Load,
        Loadend]"
    using loading
    by (simp add: send_then_mocked fired_then_mocked [OF completes] example_aborted)
  show ?thesis
    by (intro conjI; rule example_send example_aborted finished events)
qed

subsection \<open>The response text and the response\<close>

lemma then_mocked_done_fields:
  "response (fst (then_mocked_done h m req y)) = response y"
  "responseText (fst (then_mocked_done h m req y)) = responseText y"
  by (simp_all add: then_mocked_done_def Let_def setReadyState_eq trigger_eq
      split: option.split)

lemma then_mocked_coerced:
  assumes "(case mock_headers m of
              Some obj \<Rightarrow> objectToHeaders h obj | None \<Rightarrow> Some (new_Headers h)) = Some hs"
    and "getResponseBody h (mock_body m)
           (x\<lparr> readyState := HEADERS_RECEIVED, responseHeaders := hs \<rparr>) = Inr v"
  shows "responseText (fst (then_mocked h m req x)) =
           Some (case mock_body m of None \<Rightarrow> [] | Some b \<Rightarrow> b)"
    and "response (fst (then_mocked h m req x)) = v"
proof -
  let ?x2 = "(trigger Loadstart None x)
      \<lparr> status := (case mock_status m of None \<Rightarrow> 200 | Some s \<Rightarrow> if s = 0 then 200 else s),
        statusText := (case mock_statusText m of
                         None \<Rightarrow> ''OK'' | Some t \<Rightarrow> if t = [] then ''OK'' else t) \<rparr>"
  let ?x3 = "setReadyState HEADERS_RECEIVED (?x2\<lparr> responseHeaders := hs \<rparr>)"
  have "getResponseBody h (mock_body m) ?x3 =
      getResponseBody h (mock_body m)
        (x\<lparr> readyState := HEADERS_RECEIVED, responseHeaders := hs \<rparr>)"
    by (simp add: getResponseBody_cases getResponseHeader_def setReadyState_eq trigger_eq
        split: XMLHttpRequestResponseType.split)
  then have coerced: "getResponseBody h (mock_body m) ?x3 = Inr v"
    using assms(2) by simp
  show "responseText (fst (then_mocked h m req x)) =
           Some (case mock_body m of None \<Rightarrow> [] | Some b \<Rightarrow> b)"
    unfolding then_mocked_def Let_def assms(1) option.case coerced sum.case
    by (simp add: then_mocked_done_fields setReadyState_eq trigger_eq
        split: option.split)
  show "response (fst (then_mocked h m req x)) = v"
    unfolding then_mocked_def Let_def assms(1) option.case coerced sum.case
    by (simp add: then_mocked_done_fields setReadyState_eq trigger_eq
        split: option.split)
qed

lemma then_mocked_coerced_by_mode:
  assumes "mocked_coerces h m x"
  shows "responseText (fst (then_mocked h m req x)) =
           Some (case mock_body m of None \<Rightarrow> [] | Some b \<Rightarrow> b)"
    and "responseType x = RT_json \<Longrightarrow>
           response (fst (then_mocked h m req x)) =
             parseJson h (case mock_body m of None \<Rightarrow> [] | Some b \<Rightarrow> b)"
    and "responseType x = RT_blob \<Longrightarrow>
           response (fst (then_mocked h m req x)) =
             JBlob (case mock_body m of None \<Rightarrow> [] | Some b \<Rightarrow> b)
               (case headers_get h (mocked_headers h m) ''content-type'' of
                  None \<Rightarrow> ''text/plain''
                | Some t \<Rightarrow> if t = [] then ''text/plain'' else t)"
    and "responseType x = RT_arraybuffer \<Longrightarrow>
           Some (response (fst (then_mocked h m req x))) =
             map_option JBytes
               (bufferFrom h (case mock_body m of None \<Rightarrow> [] | Some b \<Rightarrow> b))"
    and "responseType x \<noteq> RT_json \<Longrightarrow> responseType x \<noteq> RT_blob \<Longrightarrow>
         responseType x \<noteq> RT_arraybuffer \<Longrightarrow>
           response (fst (then_mocked h m req x)) =
             JStr (case mock_body m of None \<Rightarrow> [] | Some b \<Rightarrow> b)"
proof -
  let ?y = "x\<lparr> readyState := HEADERS_RECEIVED, responseHeaders := mocked_headers h m \<rparr>"
  let ?text = "case mock_body m of None \<Rightarrow> [] | Some b \<Rightarrow> b"
  have hs: "(case mock_headers m of
              Some obj \<Rightarrow> objectToHeaders h obj | None \<Rightarrow> Some (new_Headers h)) =
            Some (mocked_headers h m)"
    using assms
    by (auto simp add: mocked_coerces_def mocked_headers_def split: option.splits)
  have returns: "\<exists>v. getResponseBody h (mock_body m) ?y = Inr v"
    using assms
    by (cases "responseType x")
       (auto simp add: getResponseBody_cases mocked_coerces_def)
  then obtain v where v: "getResponseBody h (mock_body m) ?y = Inr v"
    by (elim exE)
  note assigned = then_mocked_coerced [OF hs v, of req]
  show "responseText (fst (then_mocked h m req x)) = Some ?text"
    by (rule assigned)
  show "response (fst (then_mocked h m req x)) = parseJson h ?text"
    if "responseType x = RT_json"
    using v that by (simp add: assigned getResponseBody_cases)
  show "response (fst (then_mocked h m req x)) =
             JBlob ?text
               (case headers_get h (mocked_headers h m) ''content-type'' of
                  None \<Rightarrow> ''text/plain''
                | Some t \<Rightarrow> if t = [] then ''text/plain'' else t)"
    if "responseType x = RT_blob"
    using v that by (simp add: assigned getResponseBody_cases getResponseHeader_def)
  show "Some (response (fst (then_mocked h m req x))) = map_option JBytes (bufferFrom h ?text)"
    if "responseType x = RT_arraybuffer"
    using v that
    by (auto simp add: assigned getResponseBody_cases split: option.splits)
  show "response (fst (then_mocked h m req x)) = JStr ?text"
    if "responseType x \<noteq> RT_json" "responseType x \<noteq> RT_blob"
      "responseType x \<noteq> RT_arraybuffer"
    using v that
    by (cases "responseType x") (simp_all add: assigned getResponseBody_cases)
qed

lemma is_string_parseJson:
  "is_string (parseJson h t) =
     (case JSON_parse h t of None \<Rightarrow> False | Some json \<Rightarrow> is_string json)"
  by (simp add: parseJson_def unparseable_def split: option.split)

text \<open>
  C10, as amended. When the mocked path reaches lines 291 and 292, \<^verbatim>\<open>responseText\<close>
  is the body as the resolver gave it (the empty text when it gave none), whatever
  \<^verbatim>\<open>responseType\<close> is, and \<^verbatim>\<open>response\<close> is the coerced value. Under \<^verbatim>\<open>blob\<close> and
  \<^verbatim>\<open>arraybuffer\<close> the response is a blob or a byte buffer, never a string. Under
  \<^verbatim>\<open>json\<close> it is the parsed value or the sentinel: a string exactly when the body
  parses to a string.
\<close>

theorem then_mocked_responseText_raw:
  "mocked_coerces h m x \<longrightarrow>
     responseText (fst (then_mocked h m req x)) =
       Some (case mock_body m of None \<Rightarrow> [] | Some b \<Rightarrow> b)
     \<and> (responseType x = RT_json \<longrightarrow>
          response (fst (then_mocked h m req x)) =
            parseJson h (case mock_body m of None \<Rightarrow> [] | Some b \<Rightarrow> b)
          \<and> is_string (response (fst (then_mocked h m req x))) =
              (case JSON_parse h (case mock_body m of None \<Rightarrow> [] | Some b \<Rightarrow> b) of
                 None \<Rightarrow> False
               | Some json \<Rightarrow> is_string json))
     \<and> (responseType x = RT_blob \<longrightarrow>
          response (fst (then_mocked h m req x)) =
            JBlob (case mock_body m of None \<Rightarrow> [] | Some b \<Rightarrow> b)
              (case headers_get h (mocked_headers h m) ''content-type'' of
                 None \<Rightarrow> ''text/plain''
               | Some t \<Rightarrow> if t = [] then ''text/plain'' else t)
          \<and> \<not> is_string (response (fst (then_mocked h m req x))))
     \<and> (responseType x = RT_arraybuffer \<longrightarrow>
          Some (response (fst (then_mocked h m req x))) =
            map_option JBytes (bufferFrom h (case mock_body m of None \<Rightarrow> [] | Some b \<Rightarrow> b))
          \<and> \<not> is_string (response (fst (then_mocked h m req x))))
     \<and> (responseType x \<noteq> RT_json \<and> responseType x \<noteq> RT_blob \<and>
        responseType x \<noteq> RT_arraybuffer \<longrightarrow>
          response (fst (then_mocked h m req x)) =
            JStr (case mock_body m of None \<Rightarrow> [] | Some b \<Rightarrow> b))"
proof (rule impI, intro conjI)
  assume coerces: "mocked_coerces h m x"
  note by_mode = then_mocked_coerced_by_mode [OF coerces, of req]
  show "responseText (fst (then_mocked h m req x)) =
       Some (case mock_body m of None \<Rightarrow> [] | Some b \<Rightarrow> b)"
    by (rule by_mode(1))
  show "responseType x = RT_json \<longrightarrow>
          response (fst (then_mocked h m req x)) =
            parseJson h (case mock_body m of None \<Rightarrow> [] | Some b \<Rightarrow> b)
          \<and> is_string (response (fst (then_mocked h m req x))) =
              (case JSON_parse h (case mock_body m of None \<Rightarrow> [] | Some b \<Rightarrow> b) of
                 None \<Rightarrow> False
               | Some json \<Rightarrow> is_string json)"
    by (simp add: by_mode(2) is_string_parseJson)
  show "responseType x = RT_blob \<longrightarrow>
          response (fst (then_mocked h m req x)) =
            JBlob (case mock_body m of None \<Rightarrow> [] | Some b \<Rightarrow> b)
              (case headers_get h (mocked_headers h m) ''content-type'' of
                 None \<Rightarrow> ''text/plain''
               | Some t \<Rightarrow> if t = [] then ''text/plain'' else t)
          \<and> \<not> is_string (response (fst (then_mocked h m req x)))"
    by (simp add: by_mode(3))
  show "responseType x = RT_arraybuffer \<longrightarrow>
          Some (response (fst (then_mocked h m req x))) =
            map_option JBytes (bufferFrom h (case mock_body m of None \<Rightarrow> [] | Some b \<Rightarrow> b))
          \<and> \<not> is_string (response (fst (then_mocked h m req x)))"
  proof (rule impI)
    assume "responseType x = RT_arraybuffer"
    then have bytes: "Some (response (fst (then_mocked h m req x))) =
        map_option JBytes (bufferFrom h (case mock_body m of None \<Rightarrow> [] | Some b \<Rightarrow> b))"
      by (rule by_mode(4))
    then have "\<not> is_string (response (fst (then_mocked h m req x)))"
      by (cases "bufferFrom h (case mock_body m of None \<Rightarrow> [] | Some b \<Rightarrow> b)") auto
    then show "Some (response (fst (then_mocked h m req x))) =
            map_option JBytes (bufferFrom h (case mock_body m of None \<Rightarrow> [] | Some b \<Rightarrow> b))
          \<and> \<not> is_string (response (fst (then_mocked h m req x)))"
      using bytes by (intro conjI)
  qed
  show "responseType x \<noteq> RT_json \<and> responseType x \<noteq> RT_blob \<and>
        responseType x \<noteq> RT_arraybuffer \<longrightarrow>
          response (fst (then_mocked h m req x)) =
            JStr (case mock_body m of None \<Rightarrow> [] | Some b \<Rightarrow> b)"
    by (simp add: by_mode(5))
qed

subsection \<open>The original request\<close>

lemma propagateListeners_eq:
  "propagateListeners x request = request\<lparr> real_events := real_events request @ events x \<rparr>"
proof -
  have "foldl (\<lambda>r (name, listener). real_addEventListener name listener r) request es =
      request\<lparr> real_events := real_events request @ es \<rparr>" for es
    by (induction es arbitrary: request) (simp_all add: real_addEventListener_def split_beta)
  then show ?thesis
    by (simp add: propagateListeners_def)
qed

lemma propagateHeaders_eq:
  "propagateHeaders h headers request =
     request\<lparr> real_requestHeaders := real_requestHeaders request @ headers_raw h headers \<rparr>"
proof -
  have "foldl (\<lambda>r (name, value). real_setRequestHeader name value r) request hs =
      request\<lparr> real_requestHeaders := real_requestHeaders request @ hs \<rparr>" for hs
    by (induction hs arbitrary: request) (simp_all add: real_setRequestHeader_def split_beta)
  then show ?thesis
    by (simp add: propagateHeaders_def)
qed

text \<open>
  What the original request holds when \<^verbatim>\<open>send\<close> has passed the request through: the
  listener of the override and then the listeners of the instance in their order, the
  entries of the request headers, every slot of the instance but \<^verbatim>\<open>onabort\<close>, and in
  \<^verbatim>\<open>onabort\<close> the method \<^verbatim>\<open>abort\<close>.
\<close>

lemma then_original_forwards:
  "real_events (then_original h x) = (Load, OriginalLoad) # events x"
  "real_requestHeaders (then_original h x) = headers_raw h (requestHeaders x)"
  "real_onerror (then_original h x) = onerror x"
  "real_ontimeout (then_original h x) = ontimeout x"
  "real_onload (then_original h x) = onload x"
  "real_onloadstart (then_original h x) = onloadstart x"
  "real_onloadend (then_original h x) = onloadend x"
  "real_onprogress (then_original h x) = onprogress x"
  "real_onreadystatechange (then_original h x) = onreadystatechange x"
  "real_onabort (then_original h x) = Some AbortMethod"
  by (simp_all add: then_original_def Let_def propagateHeaders_eq propagateListeners_eq
      propagateCallbacks_def real_addEventListener_def pureXMLHttpRequest_def)

text \<open>
  C5. The instance has a handler in \<^verbatim>\<open>onabort\<close> and another in \<^verbatim>\<open>onerror\<close>, and the
  resolver returns nothing. The original request gets the handler of \<^verbatim>\<open>onerror\<close>; in
  \<^verbatim>\<open>onabort\<close> it gets the method \<^verbatim>\<open>abort\<close>, not the handler.
\<close>

theorem propagateCallbacks_onabort_is_abort_method:
  "onabort (example_opened\<lparr> onabort := Some (Handler 1), onerror := Some (Handler 2) \<rparr>) =
     Some (Handler 1)
   \<and> map_option real_onerror
       (fst (snd (send_then example_host (Resolved None) example_request
          (example_opened\<lparr> onabort := Some (Handler 1), onerror := Some (Handler 2) \<rparr>)))) =
     Some (Some (Handler 2))
   \<and> map_option real_onabort
       (fst (snd (send_then example_host (Resolved None) example_request
          (example_opened\<lparr> onabort := Some (Handler 1), onerror := Some (Handler 2) \<rparr>)))) =
     Some (Some AbortMethod)"
  by (simp add: send_then_def then_original_forwards)

subsection \<open>The coerced body\<close>





lemma example_coerces:
  "responseType y \<noteq> RT_arraybuffer \<Longrightarrow> mocked_coerces example_host (example_mock b) y"
  "mocked_coerces example_host (example_mock ''hi'') y"
  "mocked_headers example_host (example_mock b) = []"
  by (simp_all add: mocked_coerces_def mocked_headers_def example_mock_fields
      example_host_fields example_bufferFrom_ascii)

theorem then_mocked_responseText_raw_witness:
  \<open>mocked_coerces example_host (example_mock ''{"ok":true}'') example_opened_json
   \<and> responseText (fst (then_mocked example_host (example_mock ''{"ok":true}'')
        example_request example_opened_json)) = Some ''{"ok":true}''
   \<and> responseType example_opened_json = RT_json
   \<and> response (fst (then_mocked example_host (example_mock ''{"ok":true}'') example_request
        example_opened_json)) = JObj [(''ok'', JBool True)]
   \<and> mocked_coerces example_host (example_mock ''hello'')
        (example_opened\<lparr> responseType := RT_blob \<rparr>)
   \<and> responseType (example_opened\<lparr> responseType := RT_blob \<rparr>) = RT_blob
   \<and> response (fst (then_mocked example_host (example_mock ''hello'') example_request
        (example_opened\<lparr> responseType := RT_blob \<rparr>))) = JBlob ''hello'' ''text/plain''
   \<and> mocked_coerces example_host (example_mock ''hi'')
        (example_opened\<lparr> responseType := RT_arraybuffer \<rparr>)
   \<and> responseType (example_opened\<lparr> responseType := RT_arraybuffer \<rparr>) = RT_arraybuffer
   \<and> response (fst (then_mocked example_host (example_mock ''hi'') example_request
        (example_opened\<lparr> responseType := RT_arraybuffer \<rparr>))) = JBytes [104, 105]
   \<and> mocked_coerces example_host (example_mock ''hello'') example_opened
   \<and> (responseType example_opened \<noteq> RT_json \<and> responseType example_opened \<noteq> RT_blob \<and>
        responseType example_opened \<noteq> RT_arraybuffer)
   \<and> response (fst (then_mocked example_host (example_mock ''hello'') example_request
        example_opened)) = JStr ''hello''\<close>
proof -
  let ?blob = "example_opened\<lparr> responseType := RT_blob \<rparr>"
  let ?buffer = "example_opened\<lparr> responseType := RT_arraybuffer \<rparr>"
  have json: "responseType example_opened_json = RT_json"
    by (rule example_opened_json_fields)
  have blob: "responseType ?blob = RT_blob"
    by simp
  have buffer: "responseType ?buffer = RT_arraybuffer"
    by simp
  have as_text: "responseType example_opened \<noteq> RT_json \<and> responseType example_opened \<noteq> RT_blob
      \<and> responseType example_opened \<noteq> RT_arraybuffer"
    by (simp add: example_opened_fields)
  have c1: \<open>mocked_coerces example_host (example_mock ''{"ok":true}'') example_opened_json\<close>
    by (rule example_coerces(1)) (simp add: json)
  have c2: "mocked_coerces example_host (example_mock ''hello'') ?blob"
    by (rule example_coerces(1)) simp
  have c3: "mocked_coerces example_host (example_mock ''hi'') ?buffer"
    by (rule example_coerces(2))
  have c4: "mocked_coerces example_host (example_mock ''hello'') example_opened"
    by (rule example_coerces(1)) (simp add: example_opened_fields)
  note json_case = then_mocked_responseText_raw
    [of example_host \<open>example_mock ''{"ok":true}''\<close> example_opened_json example_request,
     rule_format, OF c1]
  note blob_case = then_mocked_responseText_raw
    [of example_host "example_mock ''hello''" ?blob example_request, rule_format, OF c2]
  note buffer_case = then_mocked_responseText_raw
    [of example_host "example_mock ''hi''" ?buffer example_request, rule_format, OF c3]
  note text_case = then_mocked_responseText_raw
    [of example_host "example_mock ''hello''" example_opened example_request,
     rule_format, OF c4]
  have raw: \<open>responseText (fst (then_mocked example_host (example_mock ''{"ok":true}'')
      example_request example_opened_json)) = Some ''{"ok":true}''\<close>
    using json_case [THEN conjunct1] by (simp add: example_mock_fields)
  have j: \<open>response (fst (then_mocked example_host (example_mock ''{"ok":true}'')
        example_request example_opened_json)) = JObj [(''ok'', JBool True)]\<close>
    using json_case [THEN conjunct2, THEN conjunct1, rule_format, OF json, THEN conjunct1]
    by (simp add: example_mock_fields parseJson_def example_host_fields
        example_JSON_parse_def)
  have b: "response (fst (then_mocked example_host (example_mock ''hello'') example_request
      ?blob)) = JBlob ''hello'' ''text/plain''"
    using blob_case [THEN conjunct2, THEN conjunct2, THEN conjunct1, rule_format, OF blob,
        THEN conjunct1]
    by (simp add: example_mock_fields example_coerces(3) example_host_fields)
  have a: "response (fst (then_mocked example_host (example_mock ''hi'') example_request
      ?buffer)) = JBytes [104, 105]"
    using buffer_case [THEN conjunct2, THEN conjunct2, THEN conjunct2, THEN conjunct1,
        rule_format, OF buffer, THEN conjunct1]
    by (simp add: example_mock_fields example_host_fields example_bufferFrom_ascii)
  have t: "response (fst (then_mocked example_host (example_mock ''hello'') example_request
        example_opened)) = JStr ''hello''"
    using text_case [THEN conjunct2, THEN conjunct2, THEN conjunct2, THEN conjunct2,
        rule_format, OF as_text]
    by (simp add: example_mock_fields)
  show ?thesis
    by (intro conjI;
        rule c1 raw json j c2 blob b c3 buffer a c4 as_text [THEN conjunct1]
          as_text [THEN conjunct2, THEN conjunct1] as_text [THEN conjunct2, THEN conjunct2] t)
qed

text \<open>
  C10 as stated fails for \<^verbatim>\<open>json\<close>: the body \<^verbatim>\<open>"abc"\<close>, a JSON string, gives a
  response that is a string, as \<^verbatim>\<open>responseText\<close> is.
\<close>

theorem then_mocked_responseText_raw_counterexample:
  \<open>responseType example_opened_json = RT_json
   \<and> responseText (fst (then_mocked example_host (example_mock ''"abc"'') example_request
        example_opened_json)) = Some ''"abc"''
   \<and> response (fst (then_mocked example_host (example_mock ''"abc"'') example_request
        example_opened_json)) = JStr ''abc''
   \<and> is_string (response (fst (then_mocked example_host (example_mock ''"abc"'')
        example_request example_opened_json)))\<close>
proof -
  have json: "responseType example_opened_json = RT_json"
    by (rule example_opened_json_fields)
  have coerces: \<open>mocked_coerces example_host (example_mock ''"abc"'') example_opened_json\<close>
    by (rule example_coerces(1)) (simp add: json)
  note by_mode = then_mocked_coerced_by_mode [OF coerces, of example_request]
  have raw: \<open>responseText (fst (then_mocked example_host (example_mock ''"abc"'')
        example_request example_opened_json)) = Some ''"abc"''\<close>
    by (simp add: by_mode(1) example_mock_fields)
  have r: \<open>response (fst (then_mocked example_host (example_mock ''"abc"'') example_request
        example_opened_json)) = JStr ''abc''\<close>
    by (simp add: by_mode(2) [OF json] example_mock_fields parseJson_def
        example_host_fields example_JSON_parse_def)
  have s: \<open>is_string (response (fst (then_mocked example_host (example_mock ''"abc"'')
        example_request example_opened_json)))\<close>
    by (simp add: r)
  show ?thesis
    by (intro conjI; rule json raw r s)
qed

end
